theory Spec2Isabelle
  imports Complex_Main "HOL-Library.AList"
begin

section \<open>The Julia bridge (packages/core/src/bridge/JuliaBridge.ts)\<close>

text \<open>
  The class \<^verbatim>\<open>JuliaBridge\<close> is embedded as a record of its private fields and one
  function per method or callback. A JavaScript number is a \<^typ>\<open>real\<close> (the arithmetic
  of the bridge is taken exact), a counter that only starts at 0 and is incremented is a
  \<^typ>\<open>nat\<close>, a string is the list of its code units, a \<^verbatim>\<open>Map\<close> is an association
  list in insertion order (\<open>AList.update\<close> is \<^verbatim>\<open>set\<close>, \<open>AList.delete\<close> is
  \<^verbatim>\<open>delete\<close>). Console output, emitted events, the launch arguments and the
  environment variables of the child process are not modelled.
\<close>

subsection \<open>Values\<close>

datatype jsvalue =
    JNull
  | JBool bool
  | JNum real
  | JStr string
  | JArr "jsvalue list"
  | JObj "(string \<times> jsvalue) list"

text \<open>Property access \<^verbatim>\<open>v.k\<close> on a value that is not \<^verbatim>\<open>null\<close>; \<open>None\<close> is \<^verbatim>\<open>undefined\<close>.\<close>

fun getField :: "string \<Rightarrow> jsvalue \<Rightarrow> jsvalue option" where
  "getField k (JObj fs) = map_of fs k"
| "getField k v = None"

text \<open>The truth value JavaScript gives to a value in a condition.\<close>

fun truthy :: "jsvalue option \<Rightarrow> bool" where
  "truthy None = False"
| "truthy (Some JNull) = False"
| "truthy (Some (JBool b)) = b"
| "truthy (Some (JNum x)) = (x \<noteq> 0)"
| "truthy (Some (JStr t)) = (t \<noteq> [])"
| "truthy (Some (JArr xs)) = True"
| "truthy (Some (JObj fs)) = True"

text \<open>Object spread \<^verbatim>\<open>{...base, ...fields}\<close>: later fields overwrite earlier ones.\<close>

definition spread :: "(string \<times> jsvalue) list \<Rightarrow> (string \<times> jsvalue) list \<Rightarrow> (string \<times> jsvalue) list" where
  "spread base fields = fold (\<lambda>(k, v). AList.update k v) fields base"

text \<open>\<^verbatim>\<open>a || d\<close> on an optional number: the default replaces a missing value and 0.\<close>

definition orDefault :: "real option \<Rightarrow> real \<Rightarrow> real" where
  "orDefault a d = (case a of None \<Rightarrow> d | Some v \<Rightarrow> if v = 0 then d else v)"

definition has :: "'k \<Rightarrow> ('k \<times> 'v) list \<Rightarrow> bool" where
  "has k m = (map_of m k \<noteq> None)"

subsection \<open>Errors\<close>

text \<open>\<^verbatim>\<open>new JuliaBridgeError(message, code)\<close> and \<^verbatim>\<open>new Error(message)\<close>.\<close>

datatype error =
    JuliaBridgeError string string
  | Error string

fun errorMessage :: "error \<Rightarrow> string" where
  "errorMessage (JuliaBridgeError m c) = m"
| "errorMessage (Error m) = m"

fun errorCode :: "error \<Rightarrow> string option" where
  "errorCode (JuliaBridgeError m c) = Some c"
| "errorCode (Error m) = None"

datatype outcome = Resolved jsvalue | Rejected error

subsection \<open>Configuration and payloads\<close>

record bridgeOptions =
  opt_timeout :: "real option"
  maxRetries :: "real option"
  reconnectInterval :: "real option"
  artificialDelay :: "real option"
  heartbeatInterval :: "real option"
  heartbeatTimeout :: "real option"
  maxQueueSize :: "real option"
  backoffMultiplier :: "real option"

record bridgeConfig =
  juliaPath :: string
  scriptPath :: string
  port :: nat
  options :: "bridgeOptions option"

datatype algorithm = pso | aco | abc | firefly

record riskParameters =
  maxPositionSize :: real
  stopLoss :: real
  takeProfit :: real
  maxDrawdown :: real

record swarmParameters = riskParameters +
  inertia :: "real option"
  cognitiveWeight :: "real option"
  socialWeight :: "real option"

record swarmConfig =
  cfg_id :: "string option"
  cfg_name :: "string option"
  cfg_size :: real
  cfg_algorithm :: algorithm
  cfg_parameters :: swarmParameters

datatype timestampValue = TsString string | TsDate real

record marketDataPoint =
  symbol :: string
  price :: real
  volume :: real
  timestamp :: timestampValue
  indicators :: "(string \<times> real) list option"

record swarmOptimizationInput =
  swarmId :: string
  marketData :: "marketDataPoint list"
  tradingPairs :: "string list"
  riskParams :: riskParameters

text \<open>The \<^verbatim>\<open>data\<close> argument of \<^verbatim>\<open>sendCommand\<close>, one constructor per call site.\<close>

datatype commandData =
    StartSwarm swarmConfig
  | StopSwarm string
  | OptimizeSwarm string "marketDataPoint list" "string list" riskParameters
  | SwarmStatus string
  | ExecuteCode string

record commandObj =
  c_id :: string
  c_command :: string
  c_data :: commandData

text \<open>
  What the bridge takes from the JavaScript host: the identifiers \<^verbatim>\<open>uuidv4()\<close> returns
  (the n-th call returns \<open>uuidv4 rt n\<close>), \<^verbatim>\<open>JSON.stringify\<close> on a command object,
  \<^verbatim>\<open>toFixed(2)\<close>, \<^verbatim>\<open>String(v)\<close> and \<^verbatim>\<open>Date.prototype.toISOString\<close>, which
  throws a \<^verbatim>\<open>RangeError\<close> on a date that is not valid (\<open>None\<close>).
\<close>

record runtime =
  uuidv4 :: "nat \<Rightarrow> string"
  stringify :: "commandObj \<Rightarrow> string"
  toFixed2 :: "real \<Rightarrow> string"
  toStr :: "jsvalue \<Rightarrow> string"
  toISOString :: "real \<Rightarrow> string option"

subsection \<open>The state of a bridge instance\<close>

datatype readyState = CONNECTING | OPEN | CLOSING | CLOSED

record webSocket =
  readyState :: readyState
  sent :: "jsvalue list"

record stdinStream =
  writable :: bool
  written :: "string list"

record childProcess =
  stdin :: "stdinStream option"
  killed :: bool

text \<open>
  A promise is a number; \<open>settled\<close> lists, in order, every call of a promise's
  \<^verbatim>\<open>resolve\<close> or \<^verbatim>\<open>reject\<close>. A timer is a handle in \<open>timers\<close> from
  \<^verbatim>\<open>setTimeout\<close>/\<^verbatim>\<open>setInterval\<close> until it fires or is cleared; its action names the
  callback and what the callback's closure holds.
\<close>

datatype timerAction =
    CommandTimeout string string nat
  | RequestTimeout string nat
  | DelayedSend jsvalue
  | ReconnectTimer
  | HeartbeatInterval
  | KillProcess
  | ReInitialize

record timer =
  t_delay :: real
  t_action :: timerAction

record pendingCommand =
  pc_promise :: nat
  pc_timeout :: nat

record pendingRequest =
  pr_promise :: nat
  pr_timeout :: "nat option"

record queuedMessage =
  q_message :: "(string \<times> jsvalue) list"
  q_promise :: nat
  q_timestamp :: real

record bridge =
  config :: bridgeConfig
  ws :: "webSocket option"
  isConnected :: bool
  retryCount :: nat
  messageQueue :: "queuedMessage list"
  reconnectTimer :: "nat option"
  heartbeatTimer :: "nat option"
  lastHeartbeat :: real
  isReconnecting :: bool
  juliaProcess :: "childProcess option"
  pendingRequests :: "(string \<times> pendingRequest) list"
  isInitialized :: bool
  pendingCommands :: "(string \<times> pendingCommand) list"
  activeSwarms :: "(string \<times> swarmConfig) list"
  reconnectAttempts :: nat
  maxReconnectAttempts :: nat
  reconnectDelay :: real
  autoReconnect :: bool
  timeout :: real
  timers :: "(nat \<times> timer) list"
  nextTimer :: nat
  nextPromise :: nat
  uuidCalls :: nat
  settled :: "(nat \<times> outcome) list"
  chained :: "(nat \<times> nat) list"

text \<open>The constructor; \<^verbatim>\<open>options.timeout || 30000\<close> and \<^verbatim>\<open>options.autoReconnect !== false\<close>.\<close>

definition newJuliaBridge :: "string option \<Rightarrow> bool option \<Rightarrow> real option \<Rightarrow> bridge" where
  "newJuliaBridge path_opt auto_opt timeout_opt =
     \<lparr> config = \<lparr> juliaPath = (case path_opt of None \<Rightarrow> ''julia'' | Some p \<Rightarrow> if p = [] then ''julia'' else p),
                  scriptPath = [], port = 0,
                  options = Some \<lparr> opt_timeout = Some (orDefault timeout_opt 30000),
                                   maxRetries = Some 3,
                                   reconnectInterval = Some 5000,
                                   artificialDelay = Some 0,
                                   heartbeatInterval = Some 30000,
                                   heartbeatTimeout = Some 10000,
                                   maxQueueSize = Some 1000,
                                   backoffMultiplier = Some (3 / 2) \<rparr> \<rparr>,
       ws = None, isConnected = False, retryCount = 0, messageQueue = [],
       reconnectTimer = None, heartbeatTimer = None, lastHeartbeat = 0,
       isReconnecting = False, juliaProcess = None, pendingRequests = [],
       isInitialized = False, pendingCommands = [], activeSwarms = [],
       reconnectAttempts = 0, maxReconnectAttempts = 5, reconnectDelay = 1000,
       autoReconnect = (auto_opt \<noteq> Some False),
       timeout = orDefault timeout_opt 30000,
       timers = [], nextTimer = 0, nextPromise = 0, uuidCalls = 0, settled = [], chained = [] \<rparr>"

text \<open>\<^verbatim>\<open>this.config.options?.f\<close> for an option \<open>f\<close>.\<close>

definition option_of :: "(bridgeOptions \<Rightarrow> real option) \<Rightarrow> bridge \<Rightarrow> real option" where
  "option_of f s = (case options (config s) of None \<Rightarrow> None | Some opts \<Rightarrow> f opts)"

subsection \<open>Timers and promises\<close>

definition setTimeout :: "timerAction \<Rightarrow> real \<Rightarrow> bridge \<Rightarrow> nat \<times> bridge" where
  "setTimeout a d s =
     (nextTimer s,
      s\<lparr> timers := AList.update (nextTimer s) \<lparr> t_delay = d, t_action = a \<rparr> (timers s),
         nextTimer := Suc (nextTimer s) \<rparr>)"

definition clearTimeout :: "nat \<Rightarrow> bridge \<Rightarrow> bridge" where
  "clearTimeout h s = s\<lparr> timers := AList.delete h (timers s) \<rparr>"

definition newPromise :: "bridge \<Rightarrow> nat \<times> bridge" where
  "newPromise s = (nextPromise s, s\<lparr> nextPromise := Suc (nextPromise s) \<rparr>)"

definition reject :: "nat \<Rightarrow> error \<Rightarrow> bridge \<Rightarrow> bridge" where
  "reject p e s = s\<lparr> settled := settled s @ [(p, Rejected e)] \<rparr>"

definition resolve :: "nat \<Rightarrow> jsvalue \<Rightarrow> bridge \<Rightarrow> bridge" where
  "resolve p v s = s\<lparr> settled := settled s @ [(p, Resolved v)] \<rparr>"

definition nextUuid :: "runtime \<Rightarrow> bridge \<Rightarrow> string \<times> bridge" where
  "nextUuid rt s = (uuidv4 rt (uuidCalls s), s\<lparr> uuidCalls := Suc (uuidCalls s) \<rparr>)"

subsection \<open>Commands over the standard input of the process\<close>

text \<open>\<^verbatim>\<open>handleReconnect\<close> (lines 1006-1023).\<close>

definition handleReconnect :: "bridge \<Rightarrow> bridge" where
  "handleReconnect s =
     (if reconnectAttempts s < maxReconnectAttempts s then
        let s1 = s\<lparr> reconnectAttempts := reconnectAttempts s + 1 \<rparr>;
            delay = reconnectDelay s1 * 2 ^ (reconnectAttempts s1 - 1)
        in snd (setTimeout ReInitialize delay s1)
      else s)"

text \<open>\<^verbatim>\<open>stdin.write(data)\<close>: a stream that is no longer writable takes nothing.\<close>

definition writeStdin :: "string \<Rightarrow> stdinStream \<Rightarrow> stdinStream" where
  "writeStdin data inp = (if writable inp then inp\<lparr> written := written inp @ [data] \<rparr> else inp)"

definition notInitialized :: error where
  "notInitialized = JuliaBridgeError ''Julia bridge is not initialized'' ''NOT_INITIALIZED''"

definition commandTimedOut :: "string \<Rightarrow> error" where
  "commandTimedOut command = JuliaBridgeError (''Command timed out: '' @ command) ''COMMAND_TIMEOUT''"

definition dataTooLarge :: "runtime \<Rightarrow> string \<Rightarrow> error" where
  "dataTooLarge rt serializedData =
     JuliaBridgeError
       (''Command data too large: '' @ toFixed2 rt (real (length serializedData) / (1024 * 1024)) @ ''MB'')
       ''DATA_TOO_LARGE''"

text \<open>What \<^verbatim>\<open>sendCommand\<close> leaves with a caller that is still waiting.\<close>

record pendingHandle =
  h_id :: string
  h_command :: string
  h_promise :: nat
  h_timeout :: nat

text \<open>
  \<^verbatim>\<open>sendCommand\<close> (lines 832-962) up to the return of its promise: \<open>Inl\<close> when the call
  throws or the promise is rejected inside its executor, \<open>Inr\<close> when the command was
  written and the promise is pending. The stream's \<^verbatim>\<open>write\<close> reports a failure through
  its callback (\<open>writeCallback\<close> below) and does not throw on a string, so the
  \<^verbatim>\<open>catch\<close> around it has no branch here; its return value is only logged.
\<close>

definition sendCommand :: "runtime \<Rightarrow> string \<Rightarrow> commandData \<Rightarrow> bridge \<Rightarrow> (error + pendingHandle) \<times> bridge" where
  "sendCommand rt command data s =
     (case (if isInitialized s then juliaProcess s else None) of
        None \<Rightarrow>
          (Inl (JuliaBridgeError ''Julia bridge is not initialized or process not running'' ''NOT_INITIALIZED''), s)
      | Some proc0 \<Rightarrow>
          (case stdin proc0 of
             None \<Rightarrow>
               (Inl (JuliaBridgeError ''Julia bridge is not initialized or process not running'' ''NOT_INITIALIZED''), s)
           | Some _ \<Rightarrow>
               let (p, s1) = newPromise s;
                   (commandId, s2) = nextUuid rt s1;
                   (commandTimeout, s3) = setTimeout (CommandTimeout commandId command p) (timeout s2) s2;
                   s4 = s3\<lparr> pendingCommands :=
                           AList.update commandId \<lparr> pc_promise = p, pc_timeout = commandTimeout \<rparr> (pendingCommands s3) \<rparr>;
                   serializedData = stringify rt \<lparr> c_id = commandId, c_command = command, c_data = data \<rparr>;
                   failed = (\<lambda>e. reject p e
                              (clearTimeout commandTimeout
                                (s4\<lparr> pendingCommands := AList.delete commandId (pendingCommands s4) \<rparr>)))
               in if length serializedData > 10 * 1024 * 1024 then
                    (Inl (dataTooLarge rt serializedData), failed (dataTooLarge rt serializedData))
                  else
                    (case juliaProcess s4 of
                       None \<Rightarrow>
                         (Inl (JuliaBridgeError ''Julia process stdin not available'' ''PROCESS_ERROR''),
                          failed (JuliaBridgeError ''Julia process stdin not available'' ''PROCESS_ERROR''))
                     | Some proc \<Rightarrow>
                         (case stdin proc of
                            None \<Rightarrow>
                              (Inl (JuliaBridgeError ''Julia process stdin not available'' ''PROCESS_ERROR''),
                               failed (JuliaBridgeError ''Julia process stdin not available'' ''PROCESS_ERROR''))
                          | Some inp \<Rightarrow>
                              if \<not> writable inp then
                                let s5 = failed (JuliaBridgeError ''Julia process stdin not writable'' ''PROCESS_ERROR'')
                                in (Inl (JuliaBridgeError ''Julia process stdin not writable'' ''PROCESS_ERROR''),
                                    if autoReconnect s5 \<and> \<not> isReconnecting s5 then handleReconnect s5 else s5)
                              else
                                (Inr \<lparr> h_id = commandId, h_command = command, h_promise = p, h_timeout = commandTimeout \<rparr>,
                                 s4\<lparr> juliaProcess :=
                                       Some (proc\<lparr> stdin := Some (writeStdin (serializedData @ [CHR 0x0A]) inp) \<rparr>) \<rparr>)))))"

text \<open>The callback of the command's deadline timer (lines 841-846).\<close>

definition commandTimeoutCallback :: "string \<Rightarrow> string \<Rightarrow> nat \<Rightarrow> bridge \<Rightarrow> bridge" where
  "commandTimeoutCallback commandId command p s =
     (if has commandId (pendingCommands s) then
        reject p (commandTimedOut command)
          (s\<lparr> pendingCommands := AList.delete commandId (pendingCommands s) \<rparr>)
      else s)"

text \<open>The callback of \<^verbatim>\<open>write\<close> when it is called with an error (lines 933-944).\<close>

definition writeCallback :: "pendingHandle \<Rightarrow> string \<Rightarrow> bridge \<Rightarrow> bridge" where
  "writeCallback h msg s =
     (let s1 = reject (h_promise h) (JuliaBridgeError (''Failed to send command: '' @ msg) ''WRITE_ERROR'')
                 (clearTimeout (h_timeout h)
                   (s\<lparr> pendingCommands := AList.delete (h_id h) (pendingCommands s) \<rparr>))
      in if autoReconnect s1 \<and> \<not> isReconnecting s1 then handleReconnect s1 else s1)"

subsection \<open>The WebSocket connection\<close>

text \<open>
  \<^verbatim>\<open>send\<close> of the \<^verbatim>\<open>ws\<close> package throws while the socket is connecting (\<open>None\<close>),
  transmits when it is open and drops the data otherwise.
\<close>

definition wsSend :: "jsvalue \<Rightarrow> webSocket \<Rightarrow> webSocket option" where
  "wsSend v w =
     (case readyState w of
        CONNECTING \<Rightarrow> None
      | OPEN \<Rightarrow> Some (w\<lparr> sent := sent w @ [v] \<rparr>)
      | _ \<Rightarrow> Some w)"

definition calculateBackoffDelay :: "bridge \<Rightarrow> real" where
  "calculateBackoffDelay s =
     (let baseDelay = orDefault (option_of reconnectInterval s) 5000;
          multiplier = orDefault (option_of backoffMultiplier s) (3 / 2)
      in baseDelay * multiplier ^ retryCount s)"

definition scheduleReconnect :: "bridge \<Rightarrow> bridge" where
  "scheduleReconnect s =
     (if isReconnecting s \<or> reconnectTimer s \<noteq> None then s
      else
        let s1 = s\<lparr> isReconnecting := True \<rparr>;
            (h, s2) = setTimeout ReconnectTimer (calculateBackoffDelay s1) s1
        in s2\<lparr> reconnectTimer := Some h \<rparr>)"

definition handleDisconnect :: "bridge \<Rightarrow> bridge" where
  "handleDisconnect s =
     (if \<not> isConnected s then s
      else scheduleReconnect (s\<lparr> isConnected := False \<rparr>))"

definition handleError :: "bridge \<Rightarrow> bridge" where
  "handleError s = (if isConnected s then handleDisconnect s else s)"

definition heartbeatMessage :: "real \<Rightarrow> jsvalue" where
  "heartbeatMessage now = JObj [(''type'', JStr ''heartbeat''), (''timestamp'', JNum now)]"

definition sendHeartbeat :: "real \<Rightarrow> bridge \<Rightarrow> bridge" where
  "sendHeartbeat now s =
     (if \<not> isConnected s then s
      else
        (case ws s of
           None \<Rightarrow> s
         | Some w \<Rightarrow>
             (case wsSend (heartbeatMessage now) w of
                None \<Rightarrow> handleDisconnect s
              | Some w' \<Rightarrow> s\<lparr> ws := Some w' \<rparr>)))"

definition startHeartbeat :: "real \<Rightarrow> bridge \<Rightarrow> bridge" where
  "startHeartbeat now s =
     (let s1 = (case heartbeatTimer s of None \<Rightarrow> s | Some h \<Rightarrow> clearTimeout h s);
          interval = orDefault (option_of heartbeatInterval s1) 30000;
          (h, s2) = setTimeout HeartbeatInterval interval s1
      in sendHeartbeat now (s2\<lparr> heartbeatTimer := Some h \<rparr>))"

definition handleHeartbeat :: "real \<Rightarrow> bridge \<Rightarrow> bridge" where
  "handleHeartbeat now s = s\<lparr> lastHeartbeat := now \<rparr>"

text \<open>
  \<^verbatim>\<open>connectWebSocket\<close> (lines 499-567) up to the registration of the handlers, which
  are the functions \<open>onOpen\<close>, \<open>onMessage\<close>, \<open>onError\<close> and \<open>onClose\<close> below;
  the constructor of the socket is given a well-formed address and does not throw.
\<close>

definition connectWebSocket :: "bridge \<Rightarrow> bridge" where
  "connectWebSocket s =
     (case ws s of
        None \<Rightarrow> s\<lparr> ws := Some \<lparr> readyState = CONNECTING, sent = [] \<rparr> \<rparr>
      | Some w \<Rightarrow>
          if readyState w = OPEN \<or> readyState w = CONNECTING then s
          else s\<lparr> ws := Some \<lparr> readyState = CONNECTING, sent = [] \<rparr> \<rparr>)"

text \<open>
  The handler of the data the process prints (lines 253-261):
  \<^verbatim>\<open>message.includes('Server started')\<close> starts the connection; anything else is
  only logged.
\<close>

fun includes_str :: "string \<Rightarrow> string \<Rightarrow> bool" where
  "includes_str [] pat = (pat = [])"
| "includes_str (c # cs) pat = (take (length pat) (c # cs) = pat \<or> includes_str cs pat)"

definition onStdout :: "string \<Rightarrow> bridge \<Rightarrow> bridge" where
  "onStdout message s = (if includes_str message ''Server started'' then connectWebSocket s else s)"

text \<open>The callback of the reconnect timer (lines 597-608), after the timer has fired.\<close>

definition reconnectTimerCallback :: "bridge \<Rightarrow> bridge" where
  "reconnectTimerCallback s =
     (let s1 = s\<lparr> reconnectTimer := None, isReconnecting := False, retryCount := retryCount s + 1 \<rparr>
      in if real (retryCount s1) > orDefault (option_of maxRetries s1) 3 then s1
         else connectWebSocket s1)"

subsection \<open>Requests over the WebSocket and the outbound queue\<close>

text \<open>
  \<^verbatim>\<open>sendMessage\<close> (lines 743-799); the message is an object, given by its fields. The
  result is the promise it returns.
\<close>

definition sendMessage :: "runtime \<Rightarrow> real \<Rightarrow> (string \<times> jsvalue) list \<Rightarrow> bridge \<Rightarrow> nat \<times> bridge" where
  "sendMessage rt now message s =
     (let (p, s0) = newPromise s
      in if \<not> isConnected s0 then
           (if real (length (messageQueue s0)) \<ge> orDefault (option_of maxQueueSize s0) 1000 then
              (p, reject p (Error ''Message queue full'') s0)
            else
              (p, s0\<lparr> messageQueue := messageQueue s0 @
                        [\<lparr> q_message = message, q_promise = p, q_timestamp = now \<rparr>] \<rparr>))
         else
           let (requestId, s1) = nextUuid rt s0;
               requestMessage = JObj (spread [(''id'', JStr requestId)] message);
               (h, s2) = setTimeout (RequestTimeout requestId p) (orDefault (option_of opt_timeout s1) 30000) s1;
               s3 = s2\<lparr> pendingRequests :=
                       AList.update requestId \<lparr> pr_promise = p, pr_timeout = Some h \<rparr> (pendingRequests s2) \<rparr>
           in if orDefault (option_of artificialDelay s3) 0 \<noteq> 0 then
                (p, snd (setTimeout (DelayedSend requestMessage) (orDefault (option_of artificialDelay s3) 0) s3))
              else
                (case ws s3 of
                   None \<Rightarrow> (p, s3)
                 | Some w \<Rightarrow>
                     (case wsSend requestMessage w of
                        None \<Rightarrow> (p, reject p (Error ''WebSocket is not open: readyState 0 (CONNECTING)'') s3)
                      | Some w' \<Rightarrow> (p, s3\<lparr> ws := Some w' \<rparr>))))"

text \<open>The callback of a request's deadline timer (lines 771-774).\<close>

definition requestTimeoutCallback :: "string \<Rightarrow> nat \<Rightarrow> bridge \<Rightarrow> bridge" where
  "requestTimeoutCallback requestId p s =
     reject p (Error ''Request timeout'')
       (s\<lparr> pendingRequests := AList.delete requestId (pendingRequests s) \<rparr>)"

text \<open>
  The callback of the artificial delay (lines 785-789). A \<^verbatim>\<open>send\<close> that throws here
  is caught by nothing; the fields of the bridge are then as they were.
\<close>

definition delayedSendCallback :: "jsvalue \<Rightarrow> bridge \<Rightarrow> bridge" where
  "delayedSendCallback requestMessage s =
     (case ws s of
        None \<Rightarrow> s
      | Some w \<Rightarrow>
          (case wsSend requestMessage w of
             None \<Rightarrow> s
           | Some w' \<Rightarrow> s\<lparr> ws := Some w' \<rparr>))"

text \<open>
  \<^verbatim>\<open>processQueuedMessages\<close> (lines 716-738). The promise of each resent message is
  chained to the queued entry's callbacks (\<^verbatim>\<open>.then(item.resolve).catch(item.reject)\<close>),
  recorded in \<open>chained\<close>.
\<close>

definition expired :: "real \<Rightarrow> real \<Rightarrow> queuedMessage \<Rightarrow> bool" where
  "expired now maxQueueAge item = (now - q_timestamp item > maxQueueAge)"

definition resend :: "runtime \<Rightarrow> real \<Rightarrow> queuedMessage \<Rightarrow> bridge \<Rightarrow> bridge" where
  "resend rt now item s =
     (let (p, s1) = sendMessage rt now (q_message item) s
      in s1\<lparr> chained := chained s1 @ [(p, q_promise item)] \<rparr>)"

definition processQueuedMessages :: "runtime \<Rightarrow> real \<Rightarrow> bridge \<Rightarrow> bridge" where
  "processQueuedMessages rt now s =
     (let maxQueueAge = orDefault (option_of opt_timeout s) 30000;
          s1 = fold (\<lambda>item. reject (q_promise item) (Error ''Message expired''))
                 (filter (expired now maxQueueAge) (messageQueue s)) s;
          queue = filter (\<lambda>item. \<not> expired now maxQueueAge item) (messageQueue s1)
      in fold (resend rt now) queue (s1\<lparr> messageQueue := [] \<rparr>))"

text \<open>The handlers of the socket's \<^verbatim>\<open>open\<close>, \<^verbatim>\<open>message\<close>, \<^verbatim>\<open>error\<close> and \<^verbatim>\<open>close\<close> events.\<close>

definition onOpen :: "runtime \<Rightarrow> real \<Rightarrow> bridge \<Rightarrow> bridge" where
  "onOpen rt now s =
     startHeartbeat now (processQueuedMessages rt now (s\<lparr> isConnected := True, retryCount := 0 \<rparr>))"

text \<open>
  The \<^verbatim>\<open>message\<close> handler (lines 519-553) on the result of \<^verbatim>\<open>JSON.parse\<close>: \<open>None\<close>
  when parsing throws. Reading a property of \<^verbatim>\<open>null\<close> throws as well; both are caught
  and logged.
\<close>

definition onMessage :: "runtime \<Rightarrow> real \<Rightarrow> jsvalue option \<Rightarrow> bridge \<Rightarrow> bridge" where
  "onMessage rt now parsed s =
     (case parsed of
        None \<Rightarrow> s
      | Some JNull \<Rightarrow> s
      | Some message \<Rightarrow>
          if getField ''type'' message = Some (JStr ''heartbeat'') then handleHeartbeat now s
          else
            (case getField ''id'' message of
               Some (JStr requestId) \<Rightarrow>
                 (case map_of (pendingRequests s) requestId of
                    None \<Rightarrow> s
                  | Some pendingRequest \<Rightarrow>
                      let s1 = (case pr_timeout pendingRequest of None \<Rightarrow> s | Some h \<Rightarrow> clearTimeout h s);
                          s2 = s1\<lparr> pendingRequests := AList.delete requestId (pendingRequests s1) \<rparr>
                      in (case getField ''error'' message of
                            None \<Rightarrow> resolve (pr_promise pendingRequest) message s2
                          | Some e \<Rightarrow>
                              if truthy (Some e) then reject (pr_promise pendingRequest) (Error (toStr rt e)) s2
                              else resolve (pr_promise pendingRequest) message s2))
             | _ \<Rightarrow> s))"

definition onError :: "bridge \<Rightarrow> bridge" where
  "onError s = handleError s"


subsection \<open>Waiting for a command\<close>

text \<open>
  How a pending command ends for the caller that awaits it: its deadline timer fires,
  the write reports an error, or the stored \<^verbatim>\<open>resolve\<close> is called with a value. No
  statement of the class calls the \<^verbatim>\<open>resolve\<close> stored in \<^verbatim>\<open>pendingCommands\<close>; the
  third case is there for the code that follows each \<^verbatim>\<open>await\<close>. The environment
  \<open>env\<close> says, by command id, which of the three happens. An operation is followed
  from its call to its return with one caller at a time: between the sending of a
  command and its end nothing else changes the bridge.
\<close>

datatype settlement = TimedOut | WriteFailed string | Answered jsvalue

definition await :: "(string \<Rightarrow> settlement) \<Rightarrow> pendingHandle \<Rightarrow> bridge \<Rightarrow> (error + jsvalue) \<times> bridge" where
  "await env h s =
     (case env (h_id h) of
        TimedOut \<Rightarrow>
          (Inl (commandTimedOut (h_command h)),
           commandTimeoutCallback (h_id h) (h_command h) (h_promise h) (clearTimeout (h_timeout h) s))
      | WriteFailed msg \<Rightarrow>
          (Inl (JuliaBridgeError (''Failed to send command: '' @ msg) ''WRITE_ERROR''), writeCallback h msg s)
      | Answered v \<Rightarrow> (Inr v, resolve (h_promise h) v s))"

text \<open>\<^verbatim>\<open>await this.sendCommand(command, data)\<close>.\<close>

definition awaitCommand :: "runtime \<Rightarrow> (string \<Rightarrow> settlement) \<Rightarrow> string \<Rightarrow> commandData \<Rightarrow> bridge \<Rightarrow> (error + jsvalue) \<times> bridge" where
  "awaitCommand rt env command data s =
     (case sendCommand rt command data s of
        (Inl e, s1) \<Rightarrow> (Inl e, s1)
      | (Inr h, s1) \<Rightarrow> await env h s1)"

subsection \<open>The public operations\<close>

text \<open>\<^verbatim>\<open>catch (error) { throw new JuliaBridgeError(`prefix${error.message}`, code) }\<close>.\<close>

definition wrapError :: "string \<Rightarrow> string \<Rightarrow> error \<Rightarrow> error" where
  "wrapError prefix code e = JuliaBridgeError (prefix @ errorMessage e) code"

definition swarmNotFound :: "string \<Rightarrow> error" where
  "swarmNotFound i = JuliaBridgeError (''Swarm not found: '' @ i) ''SWARM_NOT_FOUND''"

definition createSwarm :: "runtime \<Rightarrow> (string \<Rightarrow> settlement) \<Rightarrow> swarmConfig \<Rightarrow> bridge \<Rightarrow> (error + string) \<times> bridge" where
  "createSwarm rt env cfg s =
     (if \<not> isInitialized s then (Inl notInitialized, s)
      else
        let (swarmId, s1) = (case cfg_id cfg of
                               None \<Rightarrow> nextUuid rt s
                             | Some i \<Rightarrow> if i = [] then nextUuid rt s else (i, s));
            swarmConfig = cfg\<lparr> cfg_id := Some swarmId \<rparr>
        in (case awaitCommand rt env ''start_swarm'' (StartSwarm swarmConfig) s1 of
              (Inl e, s2) \<Rightarrow> (Inl (wrapError ''Failed to create swarm: '' ''SWARM_CREATION_ERROR'' e), s2)
            | (Inr _, s2) \<Rightarrow>
                (Inr swarmId, s2\<lparr> activeSwarms := AList.update swarmId swarmConfig (activeSwarms s2) \<rparr>)))"

text \<open>The loop of \<^verbatim>\<open>stopSwarm\<close> over \<^verbatim>\<open>Array.from(this.activeSwarms.keys())\<close> (lines 403-407).\<close>

fun stopSwarms :: "runtime \<Rightarrow> (string \<Rightarrow> settlement) \<Rightarrow> string list \<Rightarrow> bridge \<Rightarrow> (error + unit) \<times> bridge" where
  "stopSwarms rt env [] s = (Inr (), s)"
| "stopSwarms rt env (i # ids) s =
     (case awaitCommand rt env ''stop_swarm'' (StopSwarm i) s of
        (Inl e, s1) \<Rightarrow> (Inl e, s1)
      | (Inr _, s1) \<Rightarrow> stopSwarms rt env ids (s1\<lparr> activeSwarms := AList.delete i (activeSwarms s1) \<rparr>))"

text \<open>\<^verbatim>\<open>stopSwarm\<close> (lines 384-412); \<^verbatim>\<open>if (swarmId)\<close> is false for a missing id and for the empty string.\<close>

definition stopSwarm :: "runtime \<Rightarrow> (string \<Rightarrow> settlement) \<Rightarrow> string option \<Rightarrow> bridge \<Rightarrow> (error + unit) \<times> bridge" where
  "stopSwarm rt env swarmId_opt s =
     (if \<not> isInitialized s then (Inl notInitialized, s)
      else
        (case (case swarmId_opt of None \<Rightarrow> None | Some i \<Rightarrow> if i = [] then None else Some i) of
           Some i \<Rightarrow>
             if \<not> has i (activeSwarms s) then
               (Inl (wrapError ''Failed to stop swarm: '' ''SWARM_STOP_ERROR'' (swarmNotFound i)), s)
             else
               (case awaitCommand rt env ''stop_swarm'' (StopSwarm i) s of
                  (Inl e, s1) \<Rightarrow> (Inl (wrapError ''Failed to stop swarm: '' ''SWARM_STOP_ERROR'' e), s1)
                | (Inr _, s1) \<Rightarrow> (Inr (), s1\<lparr> activeSwarms := AList.delete i (activeSwarms s1) \<rparr>))
         | None \<Rightarrow>
             (case stopSwarms rt env (map fst (activeSwarms s)) s of
                (Inl e, s1) \<Rightarrow> (Inl (wrapError ''Failed to stop swarm: '' ''SWARM_STOP_ERROR'' e), s1)
              | (Inr u, s1) \<Rightarrow> (Inr (), s1))))"

text \<open>
  The callback of \<^verbatim>\<open>input.marketData.map\<close> (lines 429-432) and the \<^verbatim>\<open>map\<close> itself:
  \<^verbatim>\<open>toISOString\<close> on a date that is not valid throws \<open>Invalid time value\<close>, which
  ends the \<^verbatim>\<open>map\<close> at that point.
\<close>

definition isoTimestamp :: "runtime \<Rightarrow> marketDataPoint \<Rightarrow> error + marketDataPoint" where
  "isoTimestamp rt point =
     (case timestamp point of
        TsDate d \<Rightarrow>
          (case toISOString rt d of
             None \<Rightarrow> Inl (Error ''Invalid time value'')
           | Some t \<Rightarrow> Inr (point\<lparr> timestamp := TsString t \<rparr>))
      | TsString t \<Rightarrow> Inr (point\<lparr> timestamp := TsString t \<rparr>))"

fun isoTimestamps :: "runtime \<Rightarrow> marketDataPoint list \<Rightarrow> error + marketDataPoint list" where
  "isoTimestamps rt [] = Inr []"
| "isoTimestamps rt (point # points) =
     (case isoTimestamp rt point of
        Inl e \<Rightarrow> Inl e
      | Inr point' \<Rightarrow>
          (case isoTimestamps rt points of
             Inl e \<Rightarrow> Inl e
           | Inr points' \<Rightarrow> Inr (point' # points')))"

text \<open>\<^verbatim>\<open>optimizeSwarm\<close> (lines 417-451).\<close>

definition optimizeSwarm :: "runtime \<Rightarrow> (string \<Rightarrow> settlement) \<Rightarrow> swarmOptimizationInput \<Rightarrow> bridge \<Rightarrow> (error + jsvalue) \<times> bridge" where
  "optimizeSwarm rt env input s =
     (if \<not> isInitialized s then (Inl notInitialized, s)
      else if \<not> has (swarmId input) (activeSwarms s) then
        (Inl (wrapError ''Optimization error: '' ''OPTIMIZATION_ERROR'' (swarmNotFound (swarmId input))), s)
      else
        (case isoTimestamps rt (marketData input) of
           Inl e \<Rightarrow> (Inl (wrapError ''Optimization error: '' ''OPTIMIZATION_ERROR'' e), s)
         | Inr marketData' \<Rightarrow>
             (case awaitCommand rt env ''optimize_swarm''
                     (OptimizeSwarm (swarmId input) marketData' (tradingPairs input) (riskParams input)) s of
                (Inl e, s1) \<Rightarrow> (Inl (wrapError ''Optimization error: '' ''OPTIMIZATION_ERROR'' e), s1)
              | (Inr result, s1) \<Rightarrow> (Inr result, s1))))"

definition getSwarmStatus :: "runtime \<Rightarrow> (string \<Rightarrow> settlement) \<Rightarrow> string \<Rightarrow> bridge \<Rightarrow> (error + jsvalue) \<times> bridge" where
  "getSwarmStatus rt env i s =
     (if \<not> isInitialized s then (Inl notInitialized, s)
      else if \<not> has i (activeSwarms s) then
        (Inl (wrapError ''Failed to get swarm status: '' ''STATUS_ERROR'' (swarmNotFound i)), s)
      else
        (case awaitCommand rt env ''get_swarm_status'' (SwarmStatus i) s of
           (Inl e, s1) \<Rightarrow> (Inl (wrapError ''Failed to get swarm status: '' ''STATUS_ERROR'' e), s1)
         | (Inr result, s1) \<Rightarrow> (Inr result, s1)))"

definition executeCode :: "runtime \<Rightarrow> (string \<Rightarrow> settlement) \<Rightarrow> string \<Rightarrow> bridge \<Rightarrow> (error + jsvalue) \<times> bridge" where
  "executeCode rt env code s =
     (if \<not> isInitialized s then (Inl notInitialized, s)
      else
        (case awaitCommand rt env ''execute_code'' (ExecuteCode code) s of
           (Inl e, s1) \<Rightarrow> (Inl (wrapError ''Code execution error: '' ''CODE_EXECUTION_ERROR'' e), s1)
         | (Inr result, s1) \<Rightarrow> (Inr result, s1)))"

subsection \<open>Shutdown and initialisation\<close>

definition bridgeShutdown :: error where
  "bridgeShutdown = JuliaBridgeError ''Bridge shutdown'' ''BRIDGE_SHUTDOWN''"

text \<open>Lines 319-323: every pending command's timer is cleared and its promise rejected.\<close>

definition cancelOne :: "string \<times> pendingCommand \<Rightarrow> bridge \<Rightarrow> bridge" where
  "cancelOne entry s =
     reject (pc_promise (snd entry)) bridgeShutdown (clearTimeout (pc_timeout (snd entry)) s)"

definition cancelPending :: "bridge \<Rightarrow> bridge" where
  "cancelPending s = (fold cancelOne (pendingCommands s) s)\<lparr> pendingCommands := [] \<rparr>"

text \<open>
  Lines 326-332: the loop over the live key iterator of \<^verbatim>\<open>activeSwarms\<close>, which passes
  over a key deleted before its turn; the error of a stop is caught and logged.
\<close>

fun stopEach :: "runtime \<Rightarrow> (string \<Rightarrow> settlement) \<Rightarrow> string list \<Rightarrow> bridge \<Rightarrow> bridge" where
  "stopEach rt env [] s = s"
| "stopEach rt env (k # ks) s =
     (if has k (activeSwarms s) then stopEach rt env ks (snd (stopSwarm rt env (Some k) s))
      else stopEach rt env ks s)"

definition exitProcess :: "bridge \<Rightarrow> bridge" where
  "exitProcess s =
     (case juliaProcess s of
        None \<Rightarrow> s
      | Some proc \<Rightarrow>
          (case stdin proc of
             None \<Rightarrow> s
           | Some inp \<Rightarrow>
               s\<lparr> juliaProcess := Some (proc\<lparr> stdin := Some (writeStdin (''exit()'' @ [CHR 0x0A]) inp) \<rparr>) \<rparr>))"

definition shutdown :: "runtime \<Rightarrow> (string \<Rightarrow> settlement) \<Rightarrow> bridge \<Rightarrow> (error + unit) \<times> bridge" where
  "shutdown rt env s =
     (if \<not> isInitialized s then (Inr (), s)
      else
        let s1 = cancelPending s;
            s2 = stopEach rt env (map fst (activeSwarms s1)) s1;
            s3 = exitProcess (s2\<lparr> activeSwarms := [] \<rparr>);
            s4 = snd (setTimeout KillProcess 1000 s3)
        in (Inr (), s4\<lparr> isInitialized := False \<rparr>))"

text \<open>The callback of the timer set by \<^verbatim>\<open>shutdown\<close> (lines 341-345).\<close>

definition killCallback :: "bridge \<Rightarrow> bridge" where
  "killCallback s =
     (case juliaProcess s of
        None \<Rightarrow> s
      | Some proc \<Rightarrow> s\<lparr> juliaProcess := Some (proc\<lparr> killed := True \<rparr>) \<rparr>)"

text \<open>
  What ends \<^verbatim>\<open>waitForConnection\<close> (lines 683-711) when the bridge is not connected yet:
  the process prints \<open>Server started\<close>, the socket is created and opens (the
  \<^verbatim>\<open>connected\<close> event of the \<^verbatim>\<open>open\<close> handler); an \<^verbatim>\<open>error\<close> event is emitted;
  the timer of the wait fires.
\<close>

datatype connection = Opens | Fails error | TimesOut

definition socketOpened :: "bridge \<Rightarrow> bridge" where
  "socketOpened s = s\<lparr> ws := map_option (\<lambda>w. w\<lparr> readyState := OPEN \<rparr>) (ws s) \<rparr>"

definition waitForConnection :: "runtime \<Rightarrow> real \<Rightarrow> connection \<Rightarrow> bridge \<Rightarrow> (error + unit) \<times> bridge" where
  "waitForConnection rt now conn s =
     (if isConnected s then (Inr (), s)
      else
        (case conn of
           Opens \<Rightarrow> (Inr (), onOpen rt now (socketOpened (onStdout ''Server started'' s)))
         | Fails e \<Rightarrow> (Inl e, s)
         | TimesOut \<Rightarrow> (Inl (Error ''Connection timeout''), s)))"

definition spawn :: childProcess where
  "spawn = \<lparr> stdin = Some \<lparr> writable = True, written = [] \<rparr>, killed = False \<rparr>"

text \<open>\<^verbatim>\<open>initialize\<close> (lines 219-307).\<close>

definition initialize :: "runtime \<Rightarrow> real \<Rightarrow> connection \<Rightarrow> bridge \<Rightarrow> (error + unit) \<times> bridge" where
  "initialize rt now conn s =
     (if isInitialized s then (Inr (), s)
      else
        (case waitForConnection rt now conn (s\<lparr> juliaProcess := Some spawn \<rparr>) of
           (Inr u, s2) \<Rightarrow> (Inr (), s2\<lparr> isInitialized := True, reconnectAttempts := 0 \<rparr>)
         | (Inl e, s2) \<Rightarrow>
             if autoReconnect s2 \<and> reconnectAttempts s2 < maxReconnectAttempts s2 then
               let s3 = s2\<lparr> reconnectAttempts := reconnectAttempts s2 + 1 \<rparr>;
                   delay = reconnectDelay s3 * 2 ^ (reconnectAttempts s3 - 1)
               in (Inr (), snd (setTimeout ReInitialize delay s3))
             else
               (Inl (JuliaBridgeError
                       (''Failed to initialize Julia bridge after ''
                          @ toStr rt (JNum (real (reconnectAttempts s2))) @ '' attempts: '' @ errorMessage e)
                       ''INITIALIZATION_FAILED''), s2)))"

subsection \<open>Firing a timer\<close>

text \<open>
  A handle that is not armed fires nothing. A timeout is disarmed when it fires; the
  heartbeat interval stays armed.
\<close>

definition fireTimer :: "runtime \<Rightarrow> real \<Rightarrow> connection \<Rightarrow> nat \<Rightarrow> bridge \<Rightarrow> bridge" where
  "fireTimer rt now conn h s =
     (case map_of (timers s) h of
        None \<Rightarrow> s
      | Some t \<Rightarrow>
          (case t_action t of
             CommandTimeout commandId command p \<Rightarrow> commandTimeoutCallback commandId command p (clearTimeout h s)
           | RequestTimeout requestId p \<Rightarrow> requestTimeoutCallback requestId p (clearTimeout h s)
           | DelayedSend requestMessage \<Rightarrow> delayedSendCallback requestMessage (clearTimeout h s)
           | ReconnectTimer \<Rightarrow> reconnectTimerCallback (clearTimeout h s)
           | HeartbeatInterval \<Rightarrow> sendHeartbeat now s
           | KillProcess \<Rightarrow> killCallback (clearTimeout h s)
           | ReInitialize \<Rightarrow> snd (initialize rt now conn (clearTimeout h s))))"

subsection \<open>Example instances\<close>

text \<open>
  A host whose n-th identifier is \<open>n + 1\<close> letters long, a host whose serialised
  commands are one character over 10 MiB, an environment in which every command runs
  into its deadline, a bridge as its constructor leaves it and the same bridge after
  \<^verbatim>\<open>initialize()\<close> at time 0 with a socket that opens.
\<close>

definition rt0 :: runtime where
  "rt0 = \<lparr> uuidv4 = (\<lambda>n. replicate (Suc n) CHR ''u''),
           stringify = (\<lambda>c. c_id c @ '':'' @ c_command c),
           toFixed2 = (\<lambda>x. ''?''),
           toStr = (\<lambda>v. case v of JStr t \<Rightarrow> t | _ \<Rightarrow> ''?''),
           toISOString = (\<lambda>d. if 0 \<le> d then Some ''date'' else None) \<rparr>"

definition rtBig :: runtime where
  "rtBig = rt0\<lparr> stringify := (\<lambda>c. replicate 10485761 CHR ''x'') \<rparr>"

definition allTimeOut :: "string \<Rightarrow> settlement" where
  "allTimeOut commandId = TimedOut"

definition created :: bridge where
  "created = newJuliaBridge None None None"

definition ready :: bridge where
  "ready = snd (initialize rt0 0 Opens created)"

definition cfg0 :: swarmConfig where
  "cfg0 = \<lparr> cfg_id = None, cfg_name = None, cfg_size = 20, cfg_algorithm = pso,
            cfg_parameters = \<lparr> maxPositionSize = 1, stopLoss = 1, takeProfit = 1, maxDrawdown = 1,
                               inertia = None, cognitiveWeight = None, socialWeight = None \<rparr> \<rparr>"

definition input0 :: swarmOptimizationInput where
  "input0 = \<lparr> swarmId = ''a'', marketData = [], tradingPairs = [],
              riskParams = \<lparr> maxPositionSize = 1, stopLoss = 1, takeProfit = 1, maxDrawdown = 1 \<rparr> \<rparr>"

text \<open>
  One command in flight on the initialised bridge, and a response envelope that carries
  the command's identifier and no error.
\<close>

definition handle0 :: pendingHandle where
  "handle0 = \<lparr> h_id = ''u'', h_command = ''execute_code'', h_promise = 0, h_timeout = 1 \<rparr>"

definition inFlight :: bridge where
  "inFlight = snd (sendCommand rt0 ''execute_code'' (ExecuteCode ''1+1'') ready)"

definition response :: jsvalue where
  "response = JObj [(''id'', JStr ''u''), (''type'', JStr ''response''), (''data'', JNum 2)]"

text \<open>
  An environment in which every command is answered, and the initialised bridge with two
  sessions in its registry.
\<close>

definition allAnswered :: "string \<Rightarrow> settlement" where
  "allAnswered commandId = Answered (JStr ''done'')"

definition swarmA :: swarmConfig where
  "swarmA = cfg0\<lparr> cfg_id := Some ''a'' \<rparr>"

definition swarmB :: swarmConfig where
  "swarmB = cfg0\<lparr> cfg_id := Some ''b'' \<rparr>"

definition twoSwarms :: bridge where
  "twoSwarms = ready\<lparr> activeSwarms := [(''a'', swarmA), (''b'', swarmB)] \<rparr>"

text \<open>
  The line \<^verbatim>\<open>sendCommand\<close> writes for the stop of session \<open>k\<close> when \<^verbatim>\<open>uuidv4\<close> has
  been called \<open>n\<close> times before, and an initialised bridge with two sessions and one
  pending command.
\<close>

definition stopCommandLine :: "runtime \<Rightarrow> nat \<Rightarrow> string \<Rightarrow> string" where
  "stopCommandLine rt n k =
     stringify rt \<lparr> c_id = uuidv4 rt n, c_command = ''stop_swarm'', c_data = StopSwarm k \<rparr> @ [CHR 0x0A]"

definition busy :: bridge where
  "busy = inFlight\<lparr> activeSwarms := [(''a'', swarmA), (''b'', swarmB)] \<rparr>"

text \<open>
  The object \<^verbatim>\<open>sendMessage\<close> sends for a queued entry when \<^verbatim>\<open>uuidv4\<close> has been called
  \<open>n\<close> times before, and a connected bridge with three entries in its queue, put
  there at times 0, 50000 and 60000.
\<close>

definition requestMessage :: "runtime \<Rightarrow> nat \<Rightarrow> queuedMessage \<Rightarrow> jsvalue" where
  "requestMessage rt n item = JObj (spread [(''id'', JStr (uuidv4 rt n))] (q_message item))"

definition queued :: bridge where
  "queued = ready\<lparr> messageQueue :=
       [\<lparr> q_message = [(''n'', JNum 1)], q_promise = 7, q_timestamp = 0 \<rparr>,
        \<lparr> q_message = [(''n'', JNum 2)], q_promise = 8, q_timestamp = 50000 \<rparr>,
        \<lparr> q_message = [(''n'', JNum 3)], q_promise = 9, q_timestamp = 60000 \<rparr>] \<rparr>"

text \<open>
  A command is answered when its promise is resolved; \<open>firstAnswered\<close> resolves the
  first command of \<open>rt0\<close> only.
\<close>

definition answered :: "settlement \<Rightarrow> bool" where
  "answered outcome = (case outcome of Answered v \<Rightarrow> True | _ \<Rightarrow> False)"

definition firstAnswered :: "string \<Rightarrow> settlement" where
  "firstAnswered commandId = (if commandId = ''u'' then Answered (JStr ''done'') else TimedOut)"

section \<open>Properties\<close>

subsection \<open>Basic facts\<close>

lemma has_iff: "has k m \<longleftrightarrow> k \<in> fst ` set m"
  by (simp add: has_def map_of_eq_None_iff)

lemma ready_eq:
  "ready =
     \<lparr> config = \<lparr> juliaPath = ''julia'', scriptPath = [], port = 0,
                  options = Some \<lparr> opt_timeout = Some 30000, maxRetries = Some 3,
                                   reconnectInterval = Some 5000, artificialDelay = Some 0,
                                   heartbeatInterval = Some 30000, heartbeatTimeout = Some 10000,
                                   maxQueueSize = Some 1000, backoffMultiplier = Some (3 / 2) \<rparr> \<rparr>,
       ws = Some \<lparr> readyState = OPEN, sent = [heartbeatMessage 0] \<rparr>,
       isConnected = True, retryCount = 0, messageQueue = [],
       reconnectTimer = None, heartbeatTimer = Some 0, lastHeartbeat = 0,
       isReconnecting = False, juliaProcess = Some spawn, pendingRequests = [],
       isInitialized = True, pendingCommands = [], activeSwarms = [],
       reconnectAttempts = 0, maxReconnectAttempts = 5, reconnectDelay = 1000,
       autoReconnect = True, timeout = 30000,
       timers = [(0, \<lparr> t_delay = 30000, t_action = HeartbeatInterval \<rparr>)],
       nextTimer = 1, nextPromise = 0, uuidCalls = 0, settled = [], chained = [] \<rparr>"
  by (simp add: ready_def created_def initialize_def newJuliaBridge_def waitForConnection_def
      onStdout_def connectWebSocket_def socketOpened_def onOpen_def processQueuedMessages_def startHeartbeat_def
      sendHeartbeat_def setTimeout_def wsSend_def orDefault_def option_of_def Let_def)

text \<open>A command within the size limit, on a writable stream, is registered and written.\<close>

lemma sendCommand_written:
  assumes "isInitialized s" and "juliaProcess s = Some proc" and "stdin proc = Some inp"
    and "writable inp"
    and "length (stringify rt \<lparr> c_id = uuidv4 rt (uuidCalls s), c_command = command, c_data = data \<rparr>) \<le> 10 * 1024 * 1024"
  shows "sendCommand rt command data s =
     (Inr \<lparr> h_id = uuidv4 rt (uuidCalls s), h_command = command, h_promise = nextPromise s, h_timeout = nextTimer s \<rparr>,
      s\<lparr> nextPromise := Suc (nextPromise s), uuidCalls := Suc (uuidCalls s),
         timers := AList.update (nextTimer s)
                     \<lparr> t_delay = timeout s, t_action = CommandTimeout (uuidv4 rt (uuidCalls s)) command (nextPromise s) \<rparr> (timers s),
         nextTimer := Suc (nextTimer s),
         pendingCommands := AList.update (uuidv4 rt (uuidCalls s))
                     \<lparr> pc_promise = nextPromise s, pc_timeout = nextTimer s \<rparr> (pendingCommands s),
         juliaProcess := Some (proc\<lparr> stdin := Some (inp\<lparr> written := written inp @
             [stringify rt \<lparr> c_id = uuidv4 rt (uuidCalls s), c_command = command, c_data = data \<rparr> @ [CHR 0x0A]] \<rparr>) \<rparr>) \<rparr>)"
  using assms
  by (simp add: sendCommand_def newPromise_def nextUuid_def setTimeout_def writeStdin_def Let_def)

subsection \<open>Operations on a bridge that is not initialised\<close>

text \<open>
  C10. Each of \<^verbatim>\<open>createSwarm\<close>, \<^verbatim>\<open>stopSwarm\<close>, \<^verbatim>\<open>optimizeSwarm\<close>,
  \<^verbatim>\<open>getSwarmStatus\<close> and \<^verbatim>\<open>executeCode\<close>, called on a bridge that is not initialised,
  fails with the error of code \<^verbatim>\<open>NOT_INITIALIZED\<close> and leaves the whole state as it
  was: no command is issued, and the session registry and both pending tables are
  unchanged.
\<close>

theorem not_initialized_fails_first:
  assumes "\<not> isInitialized s"
  shows "createSwarm rt env cfg s = (Inl notInitialized, s)
       \<and> stopSwarm rt env swarmId_opt s = (Inl notInitialized, s)
       \<and> optimizeSwarm rt env input s = (Inl notInitialized, s)
       \<and> getSwarmStatus rt env i s = (Inl notInitialized, s)
       \<and> executeCode rt env code s = (Inl notInitialized, s)
       \<and> errorCode notInitialized = Some ''NOT_INITIALIZED''"
  using assms
  by (simp add: createSwarm_def stopSwarm_def optimizeSwarm_def getSwarmStatus_def executeCode_def
      notInitialized_def)

theorem not_initialized_fails_first_witness:
  "\<not> isInitialized created
   \<and> createSwarm rt0 allTimeOut cfg0 created = (Inl notInitialized, created)
   \<and> stopSwarm rt0 allTimeOut None created = (Inl notInitialized, created)
   \<and> optimizeSwarm rt0 allTimeOut input0 created = (Inl notInitialized, created)
   \<and> getSwarmStatus rt0 allTimeOut ''a'' created = (Inl notInitialized, created)
   \<and> executeCode rt0 allTimeOut ''1+1'' created = (Inl notInitialized, created)"
  using not_initialized_fails_first [of created rt0 allTimeOut cfg0 None input0 "''a''" "''1+1''"]
  by (simp add: created_def newJuliaBridge_def)

subsection \<open>The size limit of a command\<close>

text \<open>
  C9. When the serialised command is longer than 10 MiB (\<^verbatim>\<open>10 * 1024 * 1024\<close>, counted as
  \<^verbatim>\<open>String.length\<close> counts), \<^verbatim>\<open>sendCommand\<close> fails with the error of code
  \<^verbatim>\<open>DATA_TOO_LARGE\<close>; nothing is written to the process or sent on the socket, the
  table of pending commands is what it was before the call (the identifier being a new
  one), and the deadline timer of the command is no longer armed.
\<close>

theorem oversized_command_fails_locally:
  assumes "isInitialized s" and "juliaProcess s = Some proc" and "stdin proc = Some inp"
    and "length (stringify rt \<lparr> c_id = uuidv4 rt (uuidCalls s), c_command = command, c_data = data \<rparr>) > 10 * 1024 * 1024"
    and "\<not> has (uuidv4 rt (uuidCalls s)) (pendingCommands s)"
  shows "fst (sendCommand rt command data s) =
           Inl (dataTooLarge rt (stringify rt \<lparr> c_id = uuidv4 rt (uuidCalls s), c_command = command, c_data = data \<rparr>))
       \<and> errorCode (dataTooLarge rt (stringify rt \<lparr> c_id = uuidv4 rt (uuidCalls s), c_command = command, c_data = data \<rparr>))
           = Some ''DATA_TOO_LARGE''
       \<and> juliaProcess (snd (sendCommand rt command data s)) = juliaProcess s
       \<and> ws (snd (sendCommand rt command data s)) = ws s
       \<and> pendingCommands (snd (sendCommand rt command data s)) = pendingCommands s
       \<and> timers (snd (sendCommand rt command data s)) = AList.delete (nextTimer s) (timers s)"
  using assms
  by (simp add: sendCommand_def newPromise_def nextUuid_def setTimeout_def clearTimeout_def reject_def Let_def
      delete_update_same dataTooLarge_def has_iff)

theorem oversized_command_fails_locally_witness:
  "isInitialized ready \<and> juliaProcess ready = Some spawn \<and> stdin spawn = Some \<lparr> writable = True, written = [] \<rparr>
   \<and> length (stringify rtBig \<lparr> c_id = uuidv4 rtBig (uuidCalls ready), c_command = ''execute_code'', c_data = ExecuteCode ''1+1'' \<rparr>) > 10 * 1024 * 1024
   \<and> \<not> has (uuidv4 rtBig (uuidCalls ready)) (pendingCommands ready)
   \<and> fst (sendCommand rtBig ''execute_code'' (ExecuteCode ''1+1'') ready) =
           Inl (JuliaBridgeError ''Command data too large: ?MB'' ''DATA_TOO_LARGE'')
   \<and> juliaProcess (snd (sendCommand rtBig ''execute_code'' (ExecuteCode ''1+1'') ready)) = Some spawn
   \<and> pendingCommands (snd (sendCommand rtBig ''execute_code'' (ExecuteCode ''1+1'') ready)) = []"
  using oversized_command_fails_locally [of ready spawn "\<lparr> writable = True, written = [] \<rparr>" rtBig "''execute_code''" "ExecuteCode ''1+1''"]
  by (simp add: ready_eq spawn_def rtBig_def rt0_def has_def dataTooLarge_def)

subsection \<open>Responses and deadlines\<close>

lemma sendCommand_ready:
  "sendCommand rt0 ''execute_code'' (ExecuteCode ''1+1'') ready = (Inr handle0, inFlight)"
  by (simp add: inFlight_def handle0_def sendCommand_written [where proc = spawn and inp = "\<lparr> writable = True, written = [] \<rparr>"]
      ready_eq spawn_def rt0_def)

lemma inFlight_eq:
  "inFlight = ready\<lparr> nextPromise := 1, uuidCalls := 1,
       timers := [(0, \<lparr> t_delay = 30000, t_action = HeartbeatInterval \<rparr>),
                  (1, \<lparr> t_delay = 30000, t_action = CommandTimeout ''u'' ''execute_code'' 0 \<rparr>)],
       nextTimer := 2,
       pendingCommands := [(''u'', \<lparr> pc_promise = 0, pc_timeout = 1 \<rparr>)],
       juliaProcess := Some \<lparr> stdin = Some \<lparr> writable = True, written = [''u:execute_code'' @ [CHR 0x0A]] \<rparr>, killed = False \<rparr> \<rparr>"
  by (simp add: inFlight_def sendCommand_written [where proc = spawn and inp = "\<lparr> writable = True, written = [] \<rparr>"]
      ready_eq spawn_def rt0_def)

text \<open>The \<^verbatim>\<open>message\<close> handler never touches the table of pending commands.\<close>

lemma onMessage_pendingCommands:
  "pendingCommands (onMessage rt now parsed s) = pendingCommands s"
  by (simp add: onMessage_def handleHeartbeat_def clearTimeout_def reject_def resolve_def Let_def
      split: option.splits jsvalue.splits)

text \<open>A message whose id is not in \<^verbatim>\<open>pendingRequests\<close> settles no promise.\<close>

lemma onMessage_unknown_settled:
  assumes "getField ''id'' message = Some (JStr requestId)"
    and "\<not> has requestId (pendingRequests s)"
  shows "settled (onMessage rt now (Some message) s) = settled s"
proof (cases message)
  case (JObj fs)
  with assms show ?thesis
    by (simp add: onMessage_def has_def handleHeartbeat_def)
qed (use assms in simp_all)

text \<open>
  A request sent with \<^verbatim>\<open>sendMessage\<close> on the connected bridge is settled by the
  response that carries its identifier: the promise is resolved with the envelope, the
  entry leaves \<^verbatim>\<open>pendingRequests\<close> and the deadline timer is cleared, so it cannot
  fire afterwards.
\<close>

lemma request_resolved_by_matching_response:
  assumes "isConnected s" and "ws s = Some w" and "readyState w = OPEN"
    and "orDefault (option_of artificialDelay s) 0 = 0"
    and sent: "sendMessage rt now0 message s = (p, s1)"
    and rid: "getField ''id'' msg = Some (JStr (uuidv4 rt (uuidCalls s)))"
    and kind: "getField ''type'' msg \<noteq> Some (JStr ''heartbeat'')"
    and ok: "\<not> truthy (getField ''error'' msg)"
  shows "settled (onMessage rt now (Some msg) s1) = settled s @ [(p, Resolved msg)]
       \<and> \<not> has (uuidv4 rt (uuidCalls s)) (pendingRequests (onMessage rt now (Some msg) s1))
       \<and> \<not> has (nextTimer s) (timers (onMessage rt now (Some msg) s1))
       \<and> fireTimer rt now' conn (nextTimer s) (onMessage rt now (Some msg) s1) = onMessage rt now (Some msg) s1"
proof -
  obtain fs where msg: "msg = JObj fs" using rid by (cases msg) simp_all
  have sm: "sendMessage rt now0 message s = (nextPromise s,
      s\<lparr> nextPromise := Suc (nextPromise s), uuidCalls := Suc (uuidCalls s),
        timers := AList.update (nextTimer s)
                    \<lparr> t_delay = orDefault (option_of opt_timeout s) 30000,
                      t_action = RequestTimeout (uuidv4 rt (uuidCalls s)) (nextPromise s) \<rparr> (timers s),
        nextTimer := Suc (nextTimer s),
        pendingRequests := AList.update (uuidv4 rt (uuidCalls s))
                    \<lparr> pr_promise = nextPromise s, pr_timeout = Some (nextTimer s) \<rparr> (pendingRequests s),
        ws := Some (w\<lparr> sent := sent w @ [JObj (spread [(''id'', JStr (uuidv4 rt (uuidCalls s)))] message)] \<rparr>) \<rparr>)"
    using assms(1-4)
    by (simp add: sendMessage_def newPromise_def nextUuid_def setTimeout_def wsSend_def option_of_def Let_def)
  have p: "p = nextPromise s"
    and s1: "s1 = s\<lparr> nextPromise := Suc (nextPromise s), uuidCalls := Suc (uuidCalls s),
        timers := AList.update (nextTimer s)
                    \<lparr> t_delay = orDefault (option_of opt_timeout s) 30000,
                      t_action = RequestTimeout (uuidv4 rt (uuidCalls s)) (nextPromise s) \<rparr> (timers s),
        nextTimer := Suc (nextTimer s),
        pendingRequests := AList.update (uuidv4 rt (uuidCalls s))
                    \<lparr> pr_promise = nextPromise s, pr_timeout = Some (nextTimer s) \<rparr> (pendingRequests s),
        ws := Some (w\<lparr> sent := sent w @ [JObj (spread [(''id'', JStr (uuidv4 rt (uuidCalls s)))] message)] \<rparr>) \<rparr>"
  proof -
    have "p = fst (sendMessage rt now0 message s)" by (simp add: sent)
    then show "p = nextPromise s" by (simp add: sm)
    have "s1 = snd (sendMessage rt now0 message s)" by (simp add: sent)
    then show "s1 = s\<lparr> nextPromise := Suc (nextPromise s), uuidCalls := Suc (uuidCalls s),
        timers := AList.update (nextTimer s)
                    \<lparr> t_delay = orDefault (option_of opt_timeout s) 30000,
                      t_action = RequestTimeout (uuidv4 rt (uuidCalls s)) (nextPromise s) \<rparr> (timers s),
        nextTimer := Suc (nextTimer s),
        pendingRequests := AList.update (uuidv4 rt (uuidCalls s))
                    \<lparr> pr_promise = nextPromise s, pr_timeout = Some (nextTimer s) \<rparr> (pendingRequests s),
        ws := Some (w\<lparr> sent := sent w @ [JObj (spread [(''id'', JStr (uuidv4 rt (uuidCalls s)))] message)] \<rparr>) \<rparr>"
      by (simp add: sm)
  qed
  have after: "onMessage rt now (Some msg) s1 =
      s1\<lparr> timers := AList.delete (nextTimer s) (timers s1),
          pendingRequests := AList.delete (uuidv4 rt (uuidCalls s)) (pendingRequests s1),
          settled := settled s1 @ [(p, Resolved msg)] \<rparr>"
    using rid kind ok
    by (auto simp add: onMessage_def msg s1 p update_conv' clearTimeout_def resolve_def Let_def
        split: option.splits)
  have gone: "\<not> has (nextTimer s) (timers (onMessage rt now (Some msg) s1))"
    "\<not> has (uuidv4 rt (uuidCalls s)) (pendingRequests (onMessage rt now (Some msg) s1))"
    by (simp_all add: after has_iff delete_notin_dom)
  have again: "fireTimer rt now' conn (nextTimer s) (onMessage rt now (Some msg) s1) = onMessage rt now (Some msg) s1"
    using gone(1) by (simp add: fireTimer_def has_def)
  show ?thesis
    using gone again by (simp add: after) (simp add: s1)
qed

text \<open>
  C1. A command is sent on the initialised, connected bridge and gets the identifier
  \<open>u\<close>; the response envelope with that identifier and no error arrives. The claim
  has the caller's promise resolved with the payload. The handler looks the identifier
  up in \<^verbatim>\<open>pendingRequests\<close>, where \<^verbatim>\<open>sendCommand\<close> stored nothing: the state
  after the message is the state before it, the command is still pending and its promise
  is not settled. A line printed by the process does not settle it either.
\<close>

theorem response_leaves_command_pending:
  "sendCommand rt0 ''execute_code'' (ExecuteCode ''1+1'') ready = (Inr handle0, inFlight)
   \<and> h_id handle0 = ''u''
   \<and> getField ''id'' response = Some (JStr ''u'')
   \<and> getField ''error'' response = None
   \<and> onMessage rt0 5 (Some response) inFlight = inFlight
   \<and> onStdout ''result of u: 2'' inFlight = inFlight
   \<and> has ''u'' (pendingCommands inFlight)
   \<and> settled inFlight = []"
proof (intro conjI)
  show "onStdout ''result of u: 2'' inFlight = inFlight"
    by (simp add: onStdout_def)
  show "sendCommand rt0 ''execute_code'' (ExecuteCode ''1+1'') ready = (Inr handle0, inFlight)"
    by (rule sendCommand_ready)
  show "onMessage rt0 5 (Some response) inFlight = inFlight"
    by (simp add: response_def onMessage_def inFlight_eq ready_eq)
  show "has ''u'' (pendingCommands inFlight)"
    by (simp add: inFlight_eq has_def)
  show "settled inFlight = []"
    by (simp add: inFlight_eq ready_eq)
qed (simp_all add: handle0_def response_def)

text \<open>
  C2. A command is in flight (\<^verbatim>\<open>sendCommand\<close> returned its pending promise) and its
  deadline timer fires: the promise is rejected once, with the error of code
  \<^verbatim>\<open>COMMAND_TIMEOUT\<close>, the entry leaves the table of pending commands and the timer is
  no longer armed, so it cannot fire again. A response that arrives afterwards with the
  same identifier settles nothing and leaves the table as it is. The identifier is taken
  to differ from those of the requests pending on the socket.
\<close>

theorem timeout_then_late_response:
  assumes sent: "sendCommand rt command data s = (Inr h, s1)"
    and fresh: "\<not> has (h_id h) (pendingRequests s)"
    and late: "getField ''id'' message = Some (JStr (h_id h))"
    and fired: "s2 = fireTimer rt now conn (h_timeout h) s1"
  shows "has (h_id h) (pendingCommands s1)
       \<and> settled s1 = settled s
       \<and> settled s2 = settled s @ [(h_promise h, Rejected (commandTimedOut command))]
       \<and> errorCode (commandTimedOut command) = Some ''COMMAND_TIMEOUT''
       \<and> \<not> has (h_id h) (pendingCommands s2)
       \<and> \<not> has (h_timeout h) (timers s2)
       \<and> fireTimer rt now' conn' (h_timeout h) s2 = s2
       \<and> settled (onMessage rt now' (Some message) s2) = settled s2
       \<and> pendingCommands (onMessage rt now' (Some message) s2) = pendingCommands s2"
proof -
  from sent obtain proc inp where
    h: "h = \<lparr> h_id = uuidv4 rt (uuidCalls s), h_command = command, h_promise = nextPromise s, h_timeout = nextTimer s \<rparr>"
    and s1: "s1 = s\<lparr> nextPromise := Suc (nextPromise s), uuidCalls := Suc (uuidCalls s),
         timers := AList.update (nextTimer s)
                     \<lparr> t_delay = timeout s, t_action = CommandTimeout (uuidv4 rt (uuidCalls s)) command (nextPromise s) \<rparr> (timers s),
         nextTimer := Suc (nextTimer s),
         pendingCommands := AList.update (uuidv4 rt (uuidCalls s))
                     \<lparr> pc_promise = nextPromise s, pc_timeout = nextTimer s \<rparr> (pendingCommands s),
         juliaProcess := Some (proc\<lparr> stdin := Some (inp\<lparr> written := written inp @
             [stringify rt \<lparr> c_id = uuidv4 rt (uuidCalls s), c_command = command, c_data = data \<rparr> @ [CHR 0x0A]] \<rparr>) \<rparr>) \<rparr>"
    by (auto simp add: sendCommand_def newPromise_def nextUuid_def setTimeout_def writeStdin_def Let_def
        clearTimeout_def reject_def
        split: option.splits if_splits)
  have armed: "map_of (timers s1) (h_timeout h) =
      Some \<lparr> t_delay = timeout s, t_action = CommandTimeout (h_id h) command (h_promise h) \<rparr>"
    by (simp add: s1 h update_conv')
  have pend: "has (h_id h) (pendingCommands s1)"
    by (simp add: s1 h has_def update_conv')
  have s2: "s2 = s1\<lparr> timers := AList.delete (h_timeout h) (timers s1),
                     pendingCommands := AList.delete (h_id h) (pendingCommands s1),
                     settled := settled s1 @ [(h_promise h, Rejected (commandTimedOut command))] \<rparr>"
    using armed pend
    by (simp add: fired fireTimer_def commandTimeoutCallback_def clearTimeout_def reject_def)
  have gone: "\<not> has (h_timeout h) (timers s2)" "\<not> has (h_id h) (pendingCommands s2)"
    by (simp_all add: s2 has_iff delete_notin_dom)
  have again: "fireTimer rt now' conn' (h_timeout h) s2 = s2"
    using gone(1) by (simp add: fireTimer_def has_def)
  have req2: "\<not> has (h_id h) (pendingRequests s2)"
    using fresh by (simp add: s2 s1)
  show ?thesis
    using pend gone again onMessage_unknown_settled [OF late req2]
    by (simp add: onMessage_pendingCommands s2 commandTimedOut_def) (simp add: s1)
qed

theorem timeout_then_late_response_witness:
  "sendCommand rt0 ''execute_code'' (ExecuteCode ''1+1'') ready = (Inr handle0, inFlight)
   \<and> \<not> has (h_id handle0) (pendingRequests ready)
   \<and> getField ''id'' response = Some (JStr (h_id handle0))
   \<and> settled (fireTimer rt0 30000 Opens (h_timeout handle0) inFlight)
        = [(0, Rejected (JuliaBridgeError ''Command timed out: execute_code'' ''COMMAND_TIMEOUT''))]
   \<and> \<not> has ''u'' (pendingCommands (fireTimer rt0 30000 Opens (h_timeout handle0) inFlight))
   \<and> settled (onMessage rt0 30001 (Some response) (fireTimer rt0 30000 Opens (h_timeout handle0) inFlight))
        = [(0, Rejected (JuliaBridgeError ''Command timed out: execute_code'' ''COMMAND_TIMEOUT''))]"
proof -
  have fresh: "\<not> has (h_id handle0) (pendingRequests ready)"
    by (simp add: ready_eq has_def)
  have late: "getField ''id'' response = Some (JStr (h_id handle0))"
    by (simp add: response_def handle0_def)
  have start: "settled ready = []"
    by (simp add: ready_eq)
  show ?thesis
    using timeout_then_late_response [OF sendCommand_ready fresh late refl, of 30000 Opens 30001 Opens]
      sendCommand_ready fresh late start
    by (simp add: handle0_def commandTimedOut_def)
qed

subsection \<open>What a command leaves untouched\<close>

lemma handleReconnect_frame:
  "activeSwarms (handleReconnect s) = activeSwarms s
   \<and> isInitialized (handleReconnect s) = isInitialized s
   \<and> settled (handleReconnect s) = settled s
   \<and> pendingCommands (handleReconnect s) = pendingCommands s
   \<and> juliaProcess (handleReconnect s) = juliaProcess s
   \<and> uuidCalls (handleReconnect s) = uuidCalls s"
  by (simp add: handleReconnect_def setTimeout_def Let_def)

lemma sendCommand_frame:
  "activeSwarms (snd (sendCommand rt command data s)) = activeSwarms s
   \<and> isInitialized (snd (sendCommand rt command data s)) = isInitialized s
   \<and> (\<exists>ys. settled (snd (sendCommand rt command data s)) = settled s @ ys)"
  by (simp add: sendCommand_def newPromise_def nextUuid_def setTimeout_def clearTimeout_def reject_def
      handleReconnect_frame Let_def split: option.splits)

lemma await_frame:
  "activeSwarms (snd (await env h s)) = activeSwarms s
   \<and> isInitialized (snd (await env h s)) = isInitialized s
   \<and> juliaProcess (snd (await env h s)) = juliaProcess s
   \<and> uuidCalls (snd (await env h s)) = uuidCalls s
   \<and> (\<exists>ys. settled (snd (await env h s)) = settled s @ ys)"
  by (simp add: await_def commandTimeoutCallback_def writeCallback_def clearTimeout_def reject_def resolve_def
      handleReconnect_frame Let_def split: settlement.splits)

lemma awaitCommand_frame:
  "activeSwarms (snd (awaitCommand rt env command data s)) = activeSwarms s
   \<and> isInitialized (snd (awaitCommand rt env command data s)) = isInitialized s
   \<and> (\<exists>ys. settled (snd (awaitCommand rt env command data s)) = settled s @ ys)"
proof (cases "sendCommand rt command data s")
  case (Pair r s1)
  have s1: "s1 = snd (sendCommand rt command data s)" by (simp add: Pair)
  show ?thesis
  proof (cases r)
    case (Inl e)
    then show ?thesis using sendCommand_frame [of rt command data s] by (simp add: awaitCommand_def Pair)
  next
    case (Inr h)
    obtain ys where ys: "settled s1 = settled s @ ys"
      using sendCommand_frame [of rt command data s] s1 by auto
    obtain zs where zs: "settled (snd (await env h s1)) = settled s1 @ zs"
      using await_frame [of env h s1] by auto
    show ?thesis
      using sendCommand_frame [of rt command data s] await_frame [of env h s1] ys zs
      by (simp add: awaitCommand_def Pair Inr s1 [symmetric])
  qed
qed

lemma twoSwarms_simps:
  "isInitialized twoSwarms" "activeSwarms twoSwarms = [(''a'', swarmA), (''b'', swarmB)]"
  "juliaProcess twoSwarms = Some spawn" "uuidCalls twoSwarms = 0"
  by (simp_all add: twoSwarms_def ready_eq)


subsection \<open>Shutdown\<close>

lemma cancelOne_frame:
  "settled (cancelOne entry s) = settled s @ [(pc_promise (snd entry), Rejected bridgeShutdown)]"
  "activeSwarms (cancelOne entry s) = activeSwarms s"
  "isInitialized (cancelOne entry s) = isInitialized s"
  "juliaProcess (cancelOne entry s) = juliaProcess s"
  "uuidCalls (cancelOne entry s) = uuidCalls s"
  by (simp_all add: cancelOne_def reject_def clearTimeout_def)

lemma cancel_fold_settled:
  "settled (fold cancelOne xs s) = settled s @ map (\<lambda>entry. (pc_promise (snd entry), Rejected bridgeShutdown)) xs"
  by (induction xs arbitrary: s) (simp_all add: cancelOne_frame)

lemma cancel_fold_frame:
  "activeSwarms (fold cancelOne xs s) = activeSwarms s"
  "isInitialized (fold cancelOne xs s) = isInitialized s"
  "juliaProcess (fold cancelOne xs s) = juliaProcess s"
  "uuidCalls (fold cancelOne xs s) = uuidCalls s"
  by (induction xs arbitrary: s) (simp_all add: cancelOne_frame)

lemma cancelPending_frame:
  "settled (cancelPending s) = settled s @ map (\<lambda>entry. (pc_promise (snd entry), Rejected bridgeShutdown)) (pendingCommands s)"
  "activeSwarms (cancelPending s) = activeSwarms s"
  "isInitialized (cancelPending s) = isInitialized s"
  "juliaProcess (cancelPending s) = juliaProcess s"
  "uuidCalls (cancelPending s) = uuidCalls s"
  "pendingCommands (cancelPending s) = []"
  by (simp_all add: cancelPending_def cancel_fold_settled cancel_fold_frame)

lemma stopSwarms_frame:
  "isInitialized (snd (stopSwarms rt env ids s)) = isInitialized s
   \<and> (\<exists>ys. settled (snd (stopSwarms rt env ids s)) = settled s @ ys)"
proof (induction ids arbitrary: s)
  case Nil
  show ?case by simp
next
  case (Cons i ids)
  obtain r s1 where aw: "awaitCommand rt env ''stop_swarm'' (StopSwarm i) s = (r, s1)"
    by (cases "awaitCommand rt env ''stop_swarm'' (StopSwarm i) s")
  have f1: "isInitialized s1 = isInitialized s" and f2: "\<exists>ys. settled s1 = settled s @ ys"
    using awaitCommand_frame [of rt env "''stop_swarm''" "StopSwarm i" s] aw by simp_all
  show ?case
  proof (cases r)
    case (Inl e)
    then show ?thesis using aw f1 f2 by simp
  next
    case (Inr v)
    let ?s2 = "s1\<lparr> activeSwarms := AList.delete i (activeSwarms s1) \<rparr>"
    from Cons.IH [of ?s2] f1 f2 show ?thesis
      by (auto simp add: aw Inr)
  qed
qed

lemma stopSwarm_all:
  assumes "isInitialized s" and "i_opt = None \<or> i_opt = Some []"
  shows "snd (stopSwarm rt env i_opt s) = snd (stopSwarms rt env (map fst (activeSwarms s)) s)"
proof (cases "stopSwarms rt env (map fst (activeSwarms s)) s")
  case (Pair r s1)
  with assms show ?thesis
    by (cases r) (auto simp add: stopSwarm_def)
qed

lemma stopSwarm_one:
  assumes "isInitialized s" and "i \<noteq> []" and "has i (activeSwarms s)"
  shows "stopSwarm rt env (Some i) s =
     (case awaitCommand rt env ''stop_swarm'' (StopSwarm i) s of
        (Inl e, s1) \<Rightarrow> (Inl (wrapError ''Failed to stop swarm: '' ''SWARM_STOP_ERROR'' e), s1)
      | (Inr v, s1) \<Rightarrow> (Inr (), s1\<lparr> activeSwarms := AList.delete i (activeSwarms s1) \<rparr>))"
  using assms by (simp add: stopSwarm_def)

lemma stopSwarm_frame:
  "isInitialized (snd (stopSwarm rt env i_opt s)) = isInitialized s
   \<and> (\<exists>ys. settled (snd (stopSwarm rt env i_opt s)) = settled s @ ys)"
proof (cases "isInitialized s")
  case False
  then show ?thesis by (simp add: stopSwarm_def)
next
  case True
  show ?thesis
  proof (cases "i_opt = None \<or> i_opt = Some []")
    case all: True
    show ?thesis
      unfolding stopSwarm_all [OF True all]
      by (rule stopSwarms_frame)
  next
    case False
    then obtain i where i: "i_opt = Some i" "i \<noteq> []" by (cases i_opt) auto
    show ?thesis
    proof (cases "has i (activeSwarms s)")
      case False
      then show ?thesis by (simp add: stopSwarm_def True i)
    next
      case has: True
      obtain r s1 where aw: "awaitCommand rt env ''stop_swarm'' (StopSwarm i) s = (r, s1)"
        by (cases "awaitCommand rt env ''stop_swarm'' (StopSwarm i) s")
      have f: "isInitialized s1 = isInitialized s" "\<exists>ys. settled s1 = settled s @ ys"
        using awaitCommand_frame [of rt env "''stop_swarm''" "StopSwarm i" s] aw by simp_all
      obtain ys where ys: "settled s1 = settled s @ ys" using f(2) by blast
      show ?thesis
      proof (cases r)
        case (Inl e)
        have "snd (stopSwarm rt env i_opt s) = s1"
          by (simp add: i(1) stopSwarm_one [OF True i(2) has] aw Inl)
        then show ?thesis using f(1) ys by simp
      next
        case (Inr v)
        have "snd (stopSwarm rt env i_opt s) = s1\<lparr> activeSwarms := AList.delete i (activeSwarms s1) \<rparr>"
          by (simp add: i(1) stopSwarm_one [OF True i(2) has] aw Inr)
        then show ?thesis using f(1) ys by simp
      qed
    qed
  qed
qed

lemma stopEach_frame:
  "isInitialized (stopEach rt env ks s) = isInitialized s
   \<and> (\<exists>ys. settled (stopEach rt env ks s) = settled s @ ys)"
proof (induction ks arbitrary: s)
  case Nil
  show ?case by simp
next
  case (Cons k ks)
  show ?case
  proof (cases "has k (activeSwarms s)")
    case False
    then show ?thesis using Cons.IH [of s] by simp
  next
    case True
    let ?s1 = "snd (stopSwarm rt env (Some k) s)"
    obtain ys where ys: "settled ?s1 = settled s @ ys" and i1: "isInitialized ?s1 = isInitialized s"
      using stopSwarm_frame [of rt env "Some k" s] by blast
    obtain zs where zs: "settled (stopEach rt env ks ?s1) = settled ?s1 @ zs"
      and i2: "isInitialized (stopEach rt env ks ?s1) = isInitialized ?s1"
      using Cons.IH [of ?s1] by blast
    show ?thesis
      using True ys zs i1 i2 by simp
  qed
qed

lemma stopSwarm_one_written:
  assumes init: "isInitialized s" and k: "k \<noteq> []" and has: "has k (activeSwarms s)"
    and proc: "juliaProcess s = Some proc" "stdin proc = Some inp" "writable inp"
    and size: "length (stopCommandLine rt (uuidCalls s) k) \<le> Suc (10 * 1024 * 1024)"
  shows "juliaProcess (snd (stopSwarm rt env (Some k) s)) =
           Some (proc\<lparr> stdin := Some (inp\<lparr> written := written inp @ [stopCommandLine rt (uuidCalls s) k] \<rparr>) \<rparr>)
       \<and> uuidCalls (snd (stopSwarm rt env (Some k) s)) = Suc (uuidCalls s)
       \<and> isInitialized (snd (stopSwarm rt env (Some k) s))
       \<and> (activeSwarms (snd (stopSwarm rt env (Some k) s)) = activeSwarms s
            \<or> activeSwarms (snd (stopSwarm rt env (Some k) s)) = AList.delete k (activeSwarms s))"
proof -
  let ?h = "\<lparr> h_id = uuidv4 rt (uuidCalls s), h_command = ''stop_swarm'', h_promise = nextPromise s, h_timeout = nextTimer s \<rparr>"
  let ?s1 = "s\<lparr> nextPromise := Suc (nextPromise s), uuidCalls := Suc (uuidCalls s),
         timers := AList.update (nextTimer s)
                     \<lparr> t_delay = timeout s, t_action = CommandTimeout (uuidv4 rt (uuidCalls s)) ''stop_swarm'' (nextPromise s) \<rparr> (timers s),
         nextTimer := Suc (nextTimer s),
         pendingCommands := AList.update (uuidv4 rt (uuidCalls s))
                     \<lparr> pc_promise = nextPromise s, pc_timeout = nextTimer s \<rparr> (pendingCommands s),
         juliaProcess := Some (proc\<lparr> stdin := Some (inp\<lparr> written := written inp @
             [stringify rt \<lparr> c_id = uuidv4 rt (uuidCalls s), c_command = ''stop_swarm'', c_data = StopSwarm k \<rparr> @ [CHR 0x0A]] \<rparr>) \<rparr>) \<rparr>"
  have sz: "length (stringify rt \<lparr> c_id = uuidv4 rt (uuidCalls s), c_command = ''stop_swarm'', c_data = StopSwarm k \<rparr>) \<le> 10 * 1024 * 1024"
    using size by (simp add: stopCommandLine_def)
  have w: "sendCommand rt ''stop_swarm'' (StopSwarm k) s = (Inr ?h, ?s1)"
    by (rule sendCommand_written [OF init proc sz])
  obtain r s2 where aw: "await env ?h ?s1 = (r, s2)" by (cases "await env ?h ?s1")
  have f: "juliaProcess s2 = juliaProcess ?s1" "uuidCalls s2 = uuidCalls ?s1"
    "isInitialized s2 = isInitialized ?s1" "activeSwarms s2 = activeSwarms ?s1"
    using await_frame [of env ?h ?s1] aw by simp_all
  have ac: "awaitCommand rt env ''stop_swarm'' (StopSwarm k) s = (r, s2)"
    by (simp add: awaitCommand_def w aw)
  show ?thesis
  proof (cases r)
    case (Inl e)
    have "snd (stopSwarm rt env (Some k) s) = s2"
      by (simp add: stopSwarm_one [OF init k has] ac Inl)
    then show ?thesis using f init by (simp add: stopCommandLine_def)
  next
    case (Inr v)
    have "snd (stopSwarm rt env (Some k) s) = s2\<lparr> activeSwarms := AList.delete k (activeSwarms s2) \<rparr>"
      by (simp add: stopSwarm_one [OF init k has] ac Inr)
    then show ?thesis using f init by (simp add: stopCommandLine_def)
  qed
qed

lemma stopEach_written:
  assumes "isInitialized s" and "juliaProcess s = Some proc" and "stdin proc = Some inp" and "writable inp"
    and "distinct ks" and "[] \<notin> set ks" and "set ks \<subseteq> fst ` set (activeSwarms s)"
    and "\<forall>j<length ks. length (stopCommandLine rt (uuidCalls s + j) (ks ! j)) \<le> Suc (10 * 1024 * 1024)"
  shows "juliaProcess (stopEach rt env ks s) =
           Some (proc\<lparr> stdin := Some (inp\<lparr> written := written inp @
                   map (\<lambda>j. stopCommandLine rt (uuidCalls s + j) (ks ! j)) [0..<length ks] \<rparr>) \<rparr>)"
  using assms
proof (induction ks arbitrary: s proc inp)
  case Nil
  then show ?case by simp
next
  case (Cons k ks)
  let ?s1 = "snd (stopSwarm rt env (Some k) s)"
  let ?inp1 = "inp\<lparr> written := written inp @ [stopCommandLine rt (uuidCalls s) k] \<rparr>"
  let ?proc1 = "proc\<lparr> stdin := Some ?inp1 \<rparr>"
  have k: "k \<noteq> []" using Cons.prems(6) by auto
  have has: "has k (activeSwarms s)" using Cons.prems(7) by (simp add: has_iff)
  have size0: "length (stopCommandLine rt (uuidCalls s) k) \<le> Suc (10 * 1024 * 1024)"
    using Cons.prems(8) by (auto dest: spec [of _ 0])
  note one = stopSwarm_one_written [OF Cons.prems(1) k has Cons.prems(2,3,4) size0, of env]
  have p1: "juliaProcess ?s1 = Some ?proc1" "stdin ?proc1 = Some ?inp1" "writable ?inp1"
    using one Cons.prems(4) by simp_all
  have u1: "uuidCalls ?s1 = Suc (uuidCalls s)" and i1: "isInitialized ?s1" using one by simp_all
  have reg: "set ks \<subseteq> fst ` set (activeSwarms ?s1)"
  proof -
    have kn: "k \<notin> set ks" using Cons.prems(5) by simp
    have sub: "set ks \<subseteq> fst ` set (activeSwarms s)" using Cons.prems(7) by simp
    from one have "activeSwarms ?s1 = activeSwarms s \<or> activeSwarms ?s1 = AList.delete k (activeSwarms s)"
      by simp
    then show ?thesis
    proof
      assume "activeSwarms ?s1 = activeSwarms s"
      then show ?thesis using sub by simp
    next
      assume d: "activeSwarms ?s1 = AList.delete k (activeSwarms s)"
      have "fst ` set (AList.delete k (activeSwarms s)) = fst ` set (activeSwarms s) - {k}"
        by (auto simp add: AList.delete_eq)
      then show ?thesis using sub kn d by auto
    qed
  qed
  have sizes: "\<forall>j<length ks. length (stopCommandLine rt (uuidCalls ?s1 + j) (ks ! j)) \<le> Suc (10 * 1024 * 1024)"
  proof (intro allI impI)
    fix j assume "j < length ks"
    then have "Suc j < length (k # ks)" by simp
    with Cons.prems(8) have "length (stopCommandLine rt (uuidCalls s + Suc j) ((k # ks) ! Suc j)) \<le> Suc (10 * 1024 * 1024)"
      by blast
    then show "length (stopCommandLine rt (uuidCalls ?s1 + j) (ks ! j)) \<le> Suc (10 * 1024 * 1024)"
      by (simp add: u1)
  qed
  have d: "distinct ks" "[] \<notin> set ks" using Cons.prems(5,6) by simp_all
  have ih: "juliaProcess (stopEach rt env ks ?s1) =
      Some (?proc1\<lparr> stdin := Some (?inp1\<lparr> written := written ?inp1 @
                   map (\<lambda>j. stopCommandLine rt (uuidCalls ?s1 + j) (ks ! j)) [0..<length ks] \<rparr>) \<rparr>)"
    by (rule Cons.IH [OF i1 p1 d reg sizes])
  have shift: "map (\<lambda>j. stopCommandLine rt (uuidCalls s + j) ((k # ks) ! j)) [0..<length (k # ks)]
      = stopCommandLine rt (uuidCalls s) k # map (\<lambda>j. stopCommandLine rt (uuidCalls ?s1 + j) (ks ! j)) [0..<length ks]"
    by (simp add: u1 upt_conv_Cons map_Suc_upt [symmetric] del: upt_Suc)
  show ?case
    using has by (simp only: stopEach.simps if_True ih shift) simp
qed

lemma exitProcess_frame:
  "settled (exitProcess s) = settled s" "activeSwarms (exitProcess s) = activeSwarms s"
  "timers (exitProcess s) = timers s" "nextTimer (exitProcess s) = nextTimer s"
  "isInitialized (exitProcess s) = isInitialized s"
  by (simp_all add: exitProcess_def split: option.splits)

lemma exitProcess_written:
  assumes "juliaProcess s = Some proc" and "stdin proc = Some inp" and "writable inp"
  shows "juliaProcess (exitProcess s) =
           Some (proc\<lparr> stdin := Some (inp\<lparr> written := written inp @ [''exit()'' @ [CHR 0x0A]] \<rparr>) \<rparr>)"
  using assms by (simp add: exitProcess_def writeStdin_def)

lemma shutdown_unfold:
  assumes "isInitialized s"
  shows "shutdown rt env s =
     (Inr (), (snd (setTimeout KillProcess 1000
        (exitProcess ((stopEach rt env (map fst (activeSwarms s)) (cancelPending s))
            \<lparr> activeSwarms := [] \<rparr>))))\<lparr> isInitialized := False \<rparr>)"
  using assms by (simp add: shutdown_def Let_def cancelPending_frame)

text \<open>
  C3. \<^verbatim>\<open>shutdown()\<close> on a bridge that is not initialised and \<^verbatim>\<open>initialize()\<close> on one
  that is return at once and change nothing. On an initialised bridge, whatever becomes
  of the stop commands, \<^verbatim>\<open>shutdown()\<close> returns normally; every command pending at the
  call has been rejected with the error of code \<^verbatim>\<open>BRIDGE_SHUTDOWN\<close>, in table order
  and before anything else is settled; the registry is empty and the bridge is no longer
  initialised; a timer of 1000 ms is armed whose firing kills the process. When the
  process has a writable input (registry keys distinct and not empty, stop commands
  within the size limit), one \<^verbatim>\<open>stop_swarm\<close> command per registered session has been
  written to it, in registry order and whether or not earlier stops failed, followed by
  \<^verbatim>\<open>exit()\<close>.
\<close>

theorem shutdown_sequence:
  "(\<not> isInitialized s0 \<longrightarrow> shutdown rt env s0 = (Inr (), s0))
   \<and> (isInitialized s1 \<longrightarrow> initialize rt now conn s1 = (Inr (), s1))
   \<and> (isInitialized s \<longrightarrow>
        fst (shutdown rt env s) = Inr ()
        \<and> \<not> isInitialized (snd (shutdown rt env s))
        \<and> activeSwarms (snd (shutdown rt env s)) = []
        \<and> (\<exists>rest. settled (snd (shutdown rt env s)) =
              settled s @ map (\<lambda>entry. (pc_promise (snd entry), Rejected bridgeShutdown)) (pendingCommands s) @ rest)
        \<and> errorCode bridgeShutdown = Some ''BRIDGE_SHUTDOWN''
        \<and> (\<exists>h. map_of (timers (snd (shutdown rt env s))) h = Some \<lparr> t_delay = 1000, t_action = KillProcess \<rparr>
              \<and> (\<forall>proc. juliaProcess (snd (shutdown rt env s)) = Some proc \<longrightarrow>
                    juliaProcess (fireTimer rt now conn h (snd (shutdown rt env s))) = Some (proc\<lparr> killed := True \<rparr>))))
   \<and> (isInitialized s2 \<and> juliaProcess s2 = Some proc2 \<and> stdin proc2 = Some inp2 \<and> writable inp2
        \<and> distinct (map fst (activeSwarms s2)) \<and> [] \<notin> fst ` set (activeSwarms s2)
        \<and> (\<forall>j<length (activeSwarms s2).
              length (stopCommandLine rt (uuidCalls s2 + j) (map fst (activeSwarms s2) ! j)) \<le> Suc (10 * 1024 * 1024)) \<longrightarrow>
        juliaProcess (snd (shutdown rt env s2)) =
          Some (proc2\<lparr> stdin := Some (inp2\<lparr> written := written inp2
             @ map (\<lambda>j. stopCommandLine rt (uuidCalls s2 + j) (map fst (activeSwarms s2) ! j)) [0..<length (activeSwarms s2)]
             @ [''exit()'' @ [CHR 0x0A]] \<rparr>) \<rparr>))"
proof (intro conjI impI)
  assume "\<not> isInitialized s0"
  then show "shutdown rt env s0 = (Inr (), s0)" by (simp add: shutdown_def)
next
  assume "isInitialized s1"
  then show "initialize rt now conn s1 = (Inr (), s1)" by (simp add: initialize_def)
next
  assume init: "isInitialized s"
  show "fst (shutdown rt env s) = Inr ()" by (simp add: shutdown_unfold [OF init])
  show "\<not> isInitialized (snd (shutdown rt env s))" by (simp add: shutdown_unfold [OF init])
  show "activeSwarms (snd (shutdown rt env s)) = []"
    by (simp add: shutdown_unfold [OF init] setTimeout_def exitProcess_frame)
  show "errorCode bridgeShutdown = Some ''BRIDGE_SHUTDOWN''" by (simp add: bridgeShutdown_def)
  let ?s2 = "stopEach rt env (map fst (activeSwarms s)) (cancelPending s)"
  obtain ys where ys: "settled ?s2 = settled (cancelPending s) @ ys"
    using stopEach_frame [of rt env "map fst (activeSwarms s)" "cancelPending s"] by blast
  have "settled (snd (shutdown rt env s)) =
      settled s @ map (\<lambda>entry. (pc_promise (snd entry), Rejected bridgeShutdown)) (pendingCommands s) @ ys"
    by (simp add: shutdown_unfold [OF init] setTimeout_def exitProcess_frame ys cancelPending_frame)
  then show "\<exists>rest. settled (snd (shutdown rt env s)) =
              settled s @ map (\<lambda>entry. (pc_promise (snd entry), Rejected bridgeShutdown)) (pendingCommands s) @ rest"
    by blast
  let ?s3 = "exitProcess (?s2\<lparr> activeSwarms := [] \<rparr>)"
  let ?h = "nextTimer ?s3"
  have armed: "map_of (timers (snd (shutdown rt env s))) ?h = Some \<lparr> t_delay = 1000, t_action = KillProcess \<rparr>"
    by (simp add: shutdown_unfold [OF init] setTimeout_def update_conv')
  have kill: "\<forall>proc. juliaProcess (snd (shutdown rt env s)) = Some proc \<longrightarrow>
      juliaProcess (fireTimer rt now conn ?h (snd (shutdown rt env s))) = Some (proc\<lparr> killed := True \<rparr>)"
    using armed by (simp add: fireTimer_def killCallback_def clearTimeout_def)
  from armed kill
  show "\<exists>h. map_of (timers (snd (shutdown rt env s))) h = Some \<lparr> t_delay = 1000, t_action = KillProcess \<rparr>
              \<and> (\<forall>proc. juliaProcess (snd (shutdown rt env s)) = Some proc \<longrightarrow>
                    juliaProcess (fireTimer rt now conn h (snd (shutdown rt env s))) = Some (proc\<lparr> killed := True \<rparr>))"
    by blast
next
  assume a: "isInitialized s2 \<and> juliaProcess s2 = Some proc2 \<and> stdin proc2 = Some inp2 \<and> writable inp2
        \<and> distinct (map fst (activeSwarms s2)) \<and> [] \<notin> fst ` set (activeSwarms s2)
        \<and> (\<forall>j<length (activeSwarms s2).
              length (stopCommandLine rt (uuidCalls s2 + j) (map fst (activeSwarms s2) ! j)) \<le> Suc (10 * 1024 * 1024))"
  let ?c = "cancelPending s2"
  let ?ks = "map fst (activeSwarms s2)"
  let ?inp = "inp2\<lparr> written := written inp2 @ map (\<lambda>j. stopCommandLine rt (uuidCalls s2 + j) (?ks ! j)) [0..<length ?ks] \<rparr>"
  have init: "isInitialized s2" using a by simp
  have w: "juliaProcess (stopEach rt env ?ks ?c) = Some (proc2\<lparr> stdin := Some ?inp \<rparr>)"
    using a stopEach_written [of ?c proc2 inp2 ?ks rt env]
    by (simp add: cancelPending_frame)
  have "juliaProcess (exitProcess ((stopEach rt env ?ks ?c)\<lparr> activeSwarms := [] \<rparr>)) =
      Some ((proc2\<lparr> stdin := Some ?inp \<rparr>)\<lparr> stdin := Some (?inp\<lparr> written := written ?inp @ [''exit()'' @ [CHR 0x0A]] \<rparr>) \<rparr>)"
    using a by (intro exitProcess_written) (simp_all add: w)
  then show "juliaProcess (snd (shutdown rt env s2)) =
          Some (proc2\<lparr> stdin := Some (inp2\<lparr> written := written inp2
             @ map (\<lambda>j. stopCommandLine rt (uuidCalls s2 + j) (map fst (activeSwarms s2) ! j)) [0..<length (activeSwarms s2)]
             @ [''exit()'' @ [CHR 0x0A]] \<rparr>) \<rparr>)"
    by (simp add: shutdown_unfold [OF init] setTimeout_def cancelPending_frame)
qed

lemma busy_simps:
  "isInitialized busy" "activeSwarms busy = [(''a'', swarmA), (''b'', swarmB)]"
  "juliaProcess busy = Some \<lparr> stdin = Some \<lparr> writable = True, written = [''u:execute_code'' @ [CHR 0x0A]] \<rparr>, killed = False \<rparr>"
  "uuidCalls busy = 1" "pendingCommands busy = [(''u'', \<lparr> pc_promise = 0, pc_timeout = 1 \<rparr>)]"
  "settled busy = []"
  by (simp_all add: busy_def inFlight_eq ready_eq)

theorem shutdown_sequence_witness:
  "\<not> isInitialized created \<and> shutdown rt0 allTimeOut created = (Inr (), created)
   \<and> isInitialized ready \<and> initialize rt0 0 Opens ready = (Inr (), ready)
   \<and> isInitialized busy
   \<and> map fst (activeSwarms busy) = [''a'', ''b'']
   \<and> map fst (pendingCommands busy) = [''u'']
   \<and> fst (shutdown rt0 allTimeOut busy) = Inr ()
   \<and> \<not> isInitialized (snd (shutdown rt0 allTimeOut busy))
   \<and> activeSwarms (snd (shutdown rt0 allTimeOut busy)) = []
   \<and> take 1 (settled (snd (shutdown rt0 allTimeOut busy))) = [(0, Rejected bridgeShutdown)]
   \<and> juliaProcess (snd (shutdown rt0 allTimeOut busy)) =
        Some \<lparr> stdin = Some \<lparr> writable = True,
                  written = [''u:execute_code'' @ [CHR 0x0A], ''uu:stop_swarm'' @ [CHR 0x0A],
                             ''uuu:stop_swarm'' @ [CHR 0x0A], ''exit()'' @ [CHR 0x0A]] \<rparr>,
                killed = False \<rparr>"
proof -
  have sizes: "\<forall>j<length (activeSwarms busy).
      length (stopCommandLine rt0 (uuidCalls busy + j) (map fst (activeSwarms busy) ! j)) \<le> Suc (10 * 1024 * 1024)"
    by (simp add: busy_simps stopCommandLine_def rt0_def less_Suc_eq numeral_2_eq_2)
  have upt2: "[0..<2] = [0, Suc 0]" by (simp add: upt_rec)
  show ?thesis
    using shutdown_sequence [of created rt0 allTimeOut ready 0 Opens busy busy
        "\<lparr> stdin = Some \<lparr> writable = True, written = [''u:execute_code'' @ [CHR 0x0A]] \<rparr>, killed = False \<rparr>"
        "\<lparr> writable = True, written = [''u:execute_code'' @ [CHR 0x0A]] \<rparr>"] sizes
    by (auto simp add: busy_simps created_def newJuliaBridge_def ready_eq stopCommandLine_def rt0_def upt2)
qed

subsection \<open>Optimising a session\<close>

text \<open>
  On an initialised bridge, \<^verbatim>\<open>optimizeSwarm\<close> for an id that is not in the registry
  issues no command and leaves the whole state as it was.
\<close>

lemma optimize_unknown_no_round_trip:
  assumes "isInitialized s" and "\<not> has (swarmId input) (activeSwarms s)"
  shows "snd (optimizeSwarm rt env input s) = s"
    and "\<exists>e. fst (optimizeSwarm rt env input s) = Inl e"
  using assms by (simp_all add: optimizeSwarm_def)

text \<open>
  A market data point whose \<^verbatim>\<open>Date\<close> is invalid makes \<^verbatim>\<open>toISOString\<close> throw inside
  the \<^verbatim>\<open>try\<close>: the operation fails before a command is issued.
\<close>

lemma optimize_invalid_date:
  assumes "isInitialized s" and "has (swarmId input) (activeSwarms s)"
    and "isoTimestamps rt (marketData input) = Inl e"
  shows "optimizeSwarm rt env input s = (Inl (wrapError ''Optimization error: '' ''OPTIMIZATION_ERROR'' e), s)"
  using assms by (simp add: optimizeSwarm_def)

text \<open>
  For a registered id, valid timestamps, a writable process and a command within the
  size limit, the \<^verbatim>\<open>optimize_swarm\<close> command is written to the process whatever
  happens to its promise afterwards; if the promise is resolved with a value, the
  operation returns that value as it is.
\<close>

lemma optimize_registered:
  assumes init: "isInitialized s" and reg: "has (swarmId input) (activeSwarms s)"
    and iso: "isoTimestamps rt (marketData input) = Inr points"
    and proc: "juliaProcess s = Some proc" "stdin proc = Some inp" "writable inp"
    and size: "length (stringify rt \<lparr> c_id = uuidv4 rt (uuidCalls s), c_command = ''optimize_swarm'',
               c_data = OptimizeSwarm (swarmId input) points (tradingPairs input) (riskParams input) \<rparr>)
             \<le> 10 * 1024 * 1024"
  shows "juliaProcess (snd (optimizeSwarm rt env input s)) =
          Some (proc\<lparr> stdin := Some (inp\<lparr> written := written inp @
            [stringify rt \<lparr> c_id = uuidv4 rt (uuidCalls s), c_command = ''optimize_swarm'',
               c_data = OptimizeSwarm (swarmId input) points (tradingPairs input) (riskParams input) \<rparr>
             @ [CHR 0x0A]] \<rparr>) \<rparr>)"
    and "env (uuidv4 rt (uuidCalls s)) = Answered v \<Longrightarrow> fst (optimizeSwarm rt env input s) = Inr v"
proof -
  let ?d = "OptimizeSwarm (swarmId input) points (tradingPairs input) (riskParams input)"
  let ?h = "\<lparr> h_id = uuidv4 rt (uuidCalls s), h_command = ''optimize_swarm'', h_promise = nextPromise s, h_timeout = nextTimer s \<rparr>"
  let ?proc = "proc\<lparr> stdin := Some (inp\<lparr> written := written inp @
             [stringify rt \<lparr> c_id = uuidv4 rt (uuidCalls s), c_command = ''optimize_swarm'', c_data = ?d \<rparr> @ [CHR 0x0A]] \<rparr>) \<rparr>"
  let ?s1 = "s\<lparr> nextPromise := Suc (nextPromise s), uuidCalls := Suc (uuidCalls s),
         timers := AList.update (nextTimer s)
                     \<lparr> t_delay = timeout s, t_action = CommandTimeout (uuidv4 rt (uuidCalls s)) ''optimize_swarm'' (nextPromise s) \<rparr> (timers s),
         nextTimer := Suc (nextTimer s),
         pendingCommands := AList.update (uuidv4 rt (uuidCalls s))
                     \<lparr> pc_promise = nextPromise s, pc_timeout = nextTimer s \<rparr> (pendingCommands s),
         juliaProcess := Some ?proc \<rparr>"
  have w: "sendCommand rt ''optimize_swarm'' ?d s = (Inr ?h, ?s1)"
    using init proc size by (intro sendCommand_written) simp_all
  have fr: "juliaProcess (snd (await env ?h ?s1)) = juliaProcess ?s1"
    using await_frame [of env ?h ?s1] by simp
  have opt: "optimizeSwarm rt env input s =
      (case await env ?h ?s1 of
         (Inl e, s') \<Rightarrow> (Inl (wrapError ''Optimization error: '' ''OPTIMIZATION_ERROR'' e), s')
       | (Inr v, s') \<Rightarrow> (Inr v, s'))"
    using init reg iso by (simp add: optimizeSwarm_def awaitCommand_def w split: prod.splits sum.splits)
  have sn: "snd (optimizeSwarm rt env input s) = snd (await env ?h ?s1)"
    unfolding opt by (simp split: prod.splits sum.splits)
  show "juliaProcess (snd (optimizeSwarm rt env input s)) = Some ?proc"
    unfolding sn fr by simp
  show "fst (optimizeSwarm rt env input s) = Inr v" if "env (uuidv4 rt (uuidCalls s)) = Answered v"
    unfolding opt using that by (simp add: await_def)
qed

text \<open>
  C4. The claim has \<^verbatim>\<open>optimizeSwarm\<close> fail, for a session that is not registered,
  with the session-not-found error. The code creates that error
  (\<^verbatim>\<open>SWARM_NOT_FOUND\<close>) but throws it inside the \<^verbatim>\<open>try\<close> block of the operation,
  whose own \<^verbatim>\<open>catch\<close> replaces it: on the initialised bridge \<open>ready\<close>, which has no
  session, optimising session \<open>a\<close> leaves the state as it was and fails with an error
  of code \<^verbatim>\<open>OPTIMIZATION_ERROR\<close>, which is not the session-not-found error.
\<close>

theorem optimize_unknown_not_found_code:
  "isInitialized ready \<and> \<not> has (swarmId input0) (activeSwarms ready)
   \<and> optimizeSwarm rt0 allTimeOut input0 ready =
       (Inl (JuliaBridgeError ''Optimization error: Swarm not found: a'' ''OPTIMIZATION_ERROR''), ready)
   \<and> fst (optimizeSwarm rt0 allTimeOut input0 ready) \<noteq> Inl (swarmNotFound (swarmId input0))
   \<and> errorCode (swarmNotFound (swarmId input0)) = Some ''SWARM_NOT_FOUND''
   \<and> (case fst (optimizeSwarm rt0 allTimeOut input0 ready) of
        Inl e \<Rightarrow> errorCode e = Some ''OPTIMIZATION_ERROR'' | Inr v \<Rightarrow> False)"
  by (simp add: optimizeSwarm_def ready_eq has_def input0_def wrapError_def swarmNotFound_def)

subsection \<open>Stopping sessions\<close>

text \<open>
  Waiting for a command succeeds exactly when its promise is resolved.
\<close>

lemma await_not_answered:
  assumes "\<not> answered (env (h_id h))"
  shows "\<exists>e. fst (await env h s) = Inl e"
  using assms by (cases "env (h_id h)") (simp_all add: await_def answered_def)

lemma await_answered:
  assumes "answered (env (h_id h))"
  shows "\<exists>v. await env h s = (Inr v, resolve (h_promise h) v s)"
  using assms by (cases "env (h_id h)") (simp_all add: await_def answered_def)

text \<open>
  The loop of \<^verbatim>\<open>stopSwarm\<close> command by command. When the stop commands of the first
  \<open>k\<close> sessions are answered and the next one is not, the loop has written the stop
  commands of the first \<open>k + 1\<close> sessions, in registry order, and nothing after them;
  the first \<open>k\<close> sessions are removed from the registry.
\<close>

lemma stopSwarms_trace:
  assumes "isInitialized s" and "juliaProcess s = Some proc" and "stdin proc = Some inp" and "writable inp"
    and "activeSwarms s = m" and "distinct (map fst m)"
    and "\<forall>j<length m. length (stopCommandLine rt (uuidCalls s + j) (map fst m ! j)) \<le> Suc (10 * 1024 * 1024)"
    and "k \<le> length m"
    and "\<forall>j<k. answered (env (uuidv4 rt (uuidCalls s + j)))"
    and "k < length m \<longrightarrow> \<not> answered (env (uuidv4 rt (uuidCalls s + k)))"
  shows "(k = length m \<longrightarrow> fst (stopSwarms rt env (map fst m) s) = Inr ())
       \<and> (k < length m \<longrightarrow> (\<exists>e. fst (stopSwarms rt env (map fst m) s) = Inl e))
       \<and> activeSwarms (snd (stopSwarms rt env (map fst m) s)) = drop k m
       \<and> uuidCalls (snd (stopSwarms rt env (map fst m) s)) = uuidCalls s + min (Suc k) (length m)
       \<and> juliaProcess (snd (stopSwarms rt env (map fst m) s)) =
           Some (proc\<lparr> stdin := Some (inp\<lparr> written := written inp @
                   map (\<lambda>j. stopCommandLine rt (uuidCalls s + j) (map fst m ! j)) [0..<min (Suc k) (length m)] \<rparr>) \<rparr>)"
  using assms
proof (induction m arbitrary: s proc inp k)
  case Nil
  then show ?case by simp
next
  case (Cons ic m)
  obtain i c where ic: "ic = (i, c)" by (cases ic)
  let ?line = "stopCommandLine rt (uuidCalls s) i"
  let ?inp1 = "inp\<lparr> written := written inp @ [?line] \<rparr>"
  let ?proc1 = "proc\<lparr> stdin := Some ?inp1 \<rparr>"
  let ?h = "\<lparr> h_id = uuidv4 rt (uuidCalls s), h_command = ''stop_swarm'', h_promise = nextPromise s, h_timeout = nextTimer s \<rparr>"
  let ?s1 = "s\<lparr> nextPromise := Suc (nextPromise s), uuidCalls := Suc (uuidCalls s),
         timers := AList.update (nextTimer s)
                     \<lparr> t_delay = timeout s, t_action = CommandTimeout (uuidv4 rt (uuidCalls s)) ''stop_swarm'' (nextPromise s) \<rparr> (timers s),
         nextTimer := Suc (nextTimer s),
         pendingCommands := AList.update (uuidv4 rt (uuidCalls s))
                     \<lparr> pc_promise = nextPromise s, pc_timeout = nextTimer s \<rparr> (pendingCommands s),
         juliaProcess := Some (proc\<lparr> stdin := Some (inp\<lparr> written := written inp @
             [stringify rt \<lparr> c_id = uuidv4 rt (uuidCalls s), c_command = ''stop_swarm'', c_data = StopSwarm i \<rparr> @ [CHR 0x0A]] \<rparr>) \<rparr>) \<rparr>"
  have size0: "length (stopCommandLine rt (uuidCalls s) i) \<le> Suc (10 * 1024 * 1024)"
    using Cons.prems(7) ic by (auto dest: spec [of _ 0])
  then have sz: "length (stringify rt \<lparr> c_id = uuidv4 rt (uuidCalls s), c_command = ''stop_swarm'', c_data = StopSwarm i \<rparr>) \<le> 10 * 1024 * 1024"
    by (simp add: stopCommandLine_def)
  have w: "sendCommand rt ''stop_swarm'' (StopSwarm i) s = (Inr ?h, ?s1)"
    by (rule sendCommand_written [OF Cons.prems(1,2,3,4) sz])
  have p1: "juliaProcess ?s1 = Some ?proc1"
    by (simp add: stopCommandLine_def)
  obtain r s2 where aw: "await env ?h ?s1 = (r, s2)" by (cases "await env ?h ?s1")
  have f: "juliaProcess s2 = Some ?proc1" "uuidCalls s2 = Suc (uuidCalls s)"
    "isInitialized s2" "activeSwarms s2 = (i, c) # m"
    using await_frame [of env ?h ?s1] aw Cons.prems(1,5) ic p1 by simp_all
  have ac: "awaitCommand rt env ''stop_swarm'' (StopSwarm i) s = (r, s2)"
    by (simp add: awaitCommand_def w aw)
  show ?case
  proof (cases k)
    case 0
    then have "\<not> answered (env (h_id ?h))" using Cons.prems(10) by simp
    then obtain e where "fst (await env ?h ?s1) = Inl e" using await_not_answered by blast
    then have r: "r = Inl e" using aw by simp
    have res: "stopSwarms rt env (map fst (ic # m)) s = (Inl e, s2)"
      by (simp add: ic ac r)
    show ?thesis
      unfolding res using f 0 by (simp add: ic)
  next
    case (Suc k')
    then have "answered (env (h_id ?h))" using Cons.prems(9) by (auto dest: spec [of _ 0])
    then obtain v where "await env ?h ?s1 = (Inr v, resolve (h_promise ?h) v ?s1)"
      using await_answered by blast
    then have r: "r = Inr v" using aw by simp
    let ?s3 = "s2\<lparr> activeSwarms := AList.delete i (activeSwarms s2) \<rparr>"
    have res: "stopSwarms rt env (map fst (ic # m)) s = stopSwarms rt env (map fst m) ?s3"
      by (simp add: ic ac r)
    have notin: "i \<notin> fst ` set m" using Cons.prems(6) ic by simp
    have g: "isInitialized ?s3" "juliaProcess ?s3 = Some ?proc1" "stdin ?proc1 = Some ?inp1" "writable ?inp1"
      "activeSwarms ?s3 = m" "distinct (map fst m)"
      using f notin Cons.prems(4,6) by simp_all
    have u3: "uuidCalls ?s3 = Suc (uuidCalls s)" using f by simp
    have sizes: "\<forall>j<length m. length (stopCommandLine rt (uuidCalls ?s3 + j) (map fst m ! j)) \<le> Suc (10 * 1024 * 1024)"
    proof (intro allI impI)
      fix j assume "j < length m"
      then have "Suc j < length (ic # m)" by simp
      with Cons.prems(7) have "length (stopCommandLine rt (uuidCalls s + Suc j) (map fst (ic # m) ! Suc j)) \<le> Suc (10 * 1024 * 1024)"
        by blast
      then show "length (stopCommandLine rt (uuidCalls ?s3 + j) (map fst m ! j)) \<le> Suc (10 * 1024 * 1024)"
        by (simp add: u3)
    qed
    have k1: "k' \<le> length m" using Cons.prems(8) Suc by simp
    have k2: "\<forall>j<k'. answered (env (uuidv4 rt (uuidCalls ?s3 + j)))"
    proof (intro allI impI)
      fix j assume "j < k'"
      then have "Suc j < k" using Suc by simp
      with Cons.prems(9) have "answered (env (uuidv4 rt (uuidCalls s + Suc j)))" by blast
      then show "answered (env (uuidv4 rt (uuidCalls ?s3 + j)))" by (simp add: u3)
    qed
    have k3: "k' < length m \<longrightarrow> \<not> answered (env (uuidv4 rt (uuidCalls ?s3 + k')))"
      using Cons.prems(10) Suc by (simp add: u3)
    note ih = Cons.IH [OF g sizes k1 k2 k3]
    have shift: "map (\<lambda>j. stopCommandLine rt (uuidCalls s + j) (map fst (ic # m) ! j)) [0..<Suc (min (Suc k') (length m))]
        = ?line # map (\<lambda>j. stopCommandLine rt (uuidCalls ?s3 + j) (map fst m ! j)) [0..<min (Suc k') (length m)]"
      by (simp add: map_upt_Suc u3 ic del: upt_Suc)
    have mn: "min (Suc k) (length (ic # m)) = Suc (min (Suc k') (length m))"
      using Suc by simp
    show ?thesis
      unfolding res mn shift using ih Suc by (simp add: u3)
  qed
qed


text \<open>
  Whatever the state of the process, the loop removes the sessions in registry order and
  ends at the first stop that fails: the registry is then the rest of the list from that
  session on.
\<close>

lemma stopSwarms_registry:
  "activeSwarms s = m \<Longrightarrow> distinct (map fst m) \<Longrightarrow>
   (case stopSwarms rt env (map fst m) s of
      (Inr u, s') \<Rightarrow> activeSwarms s' = []
    | (Inl e, s') \<Rightarrow> \<exists>n<length m. activeSwarms s' = drop n m)"
proof (induction m arbitrary: s)
  case Nil
  then show ?case by simp
next
  case (Cons kc m)
  obtain i c where kc: "kc = (i, c)" by (cases kc)
  obtain r s1 where aw: "awaitCommand rt env ''stop_swarm'' (StopSwarm i) s = (r, s1)"
    by (cases "awaitCommand rt env ''stop_swarm'' (StopSwarm i) s")
  have reg: "activeSwarms s1 = (i, c) # m"
    using awaitCommand_frame [of rt env "''stop_swarm''" "StopSwarm i" s] aw Cons.prems(1) kc by simp
  show ?case
  proof (cases r)
    case (Inl e)
    then show ?thesis using aw reg kc by (auto intro: exI [of _ 0])
  next
    case (Inr v)
    have notin: "i \<notin> fst ` set m" using Cons.prems(2) kc by simp
    let ?s2 = "s1\<lparr> activeSwarms := AList.delete i (activeSwarms s1) \<rparr>"
    have reg2: "activeSwarms ?s2 = m" using reg notin by simp
    have d: "distinct (map fst m)" using Cons.prems(2) by simp
    have step: "stopSwarms rt env (map fst (kc # m)) s = stopSwarms rt env (map fst m) ?s2"
      by (simp add: kc aw Inr)
    obtain r' s' where res: "stopSwarms rt env (map fst m) ?s2 = (r', s')"
      by (cases "stopSwarms rt env (map fst m) ?s2")
    have ih: "case r' of Inr u \<Rightarrow> activeSwarms s' = [] | Inl e \<Rightarrow> \<exists>n<length m. activeSwarms s' = drop n m"
      using Cons.IH [OF reg2 d] by (simp add: res split: sum.splits)
    show ?thesis
    proof (cases r')
      case (Inl e)
      with ih obtain n where "n < length m" "activeSwarms s' = drop n m" by auto
      then have "Suc n < length (kc # m) \<and> activeSwarms s' = drop (Suc n) (kc # m)" by simp
      then show ?thesis unfolding step res Inl by (simp del: drop_Suc_Cons) blast
    next
      case (Inr u)
      with ih show ?thesis unfolding step res by simp
    qed
  qed
qed

lemma stop_first_times_out:
  "awaitCommand rt0 allTimeOut ''stop_swarm'' (StopSwarm ''a'') twoSwarms =
     (Inl (commandTimedOut ''stop_swarm''),
      twoSwarms\<lparr> nextPromise := 1, uuidCalls := 1, nextTimer := 2,
         juliaProcess := Some \<lparr> stdin = Some \<lparr> writable = True, written = [''u:stop_swarm'' @ [CHR 0x0A]] \<rparr>, killed = False \<rparr>,
         settled := [(0, Rejected (commandTimedOut ''stop_swarm''))] \<rparr>)"
  by (simp add: awaitCommand_def sendCommand_written [where proc = spawn and inp = "\<lparr> writable = True, written = [] \<rparr>"]
      twoSwarms_simps spawn_def rt0_def await_def allTimeOut_def commandTimeoutCallback_def clearTimeout_def
      reject_def has_def update_conv')
    (simp add: twoSwarms_def ready_eq)


lemma stopSwarm_all_result:
  assumes "isInitialized s"
  shows "fst (stopSwarm rt env None s) =
     (case fst (stopSwarms rt env (map fst (activeSwarms s)) s) of
        Inl e \<Rightarrow> Inl (wrapError ''Failed to stop swarm: '' ''SWARM_STOP_ERROR'' e)
      | Inr u \<Rightarrow> Inr ())"
proof (cases "stopSwarms rt env (map fst (activeSwarms s)) s")
  case (Pair r s1)
  with assms show ?thesis
    by (cases r) (simp_all add: stopSwarm_def)
qed

text \<open>
  A session id that is not registered: the error that reaches the caller is the one of
  the \<^verbatim>\<open>catch\<close> of \<^verbatim>\<open>stopSwarm\<close>, which replaces the \<^verbatim>\<open>SWARM_NOT_FOUND\<close> error
  thrown inside its \<^verbatim>\<open>try\<close> block.
\<close>

lemma stop_unknown_error:
  assumes "isInitialized s" and "i \<noteq> []" and "\<not> has i (activeSwarms s)"
  shows "stopSwarm rt env (Some i) s =
    (Inl (JuliaBridgeError (''Failed to stop swarm: Swarm not found: '' @ i) ''SWARM_STOP_ERROR''), s)"
  using assms by (simp add: stopSwarm_def wrapError_def swarmNotFound_def)

text \<open>
  C6, as the code has it. On an initialised bridge:

  \<^item> \<^verbatim>\<open>stopSwarm\<close> with a non-empty id that is not registered fails, issues no command
    and leaves the whole state as it was;
  \<^item> the empty string as id is treated as no id (\<^verbatim>\<open>if (swarmId)\<close>);
  \<^item> without an id, and with distinct registry keys, either every stop succeeded and the
    registry is empty, or the operation fails with code \<^verbatim>\<open>SWARM_STOP_ERROR\<close> and the
    registry is the rest of the former registry from the session whose stop failed;
  \<^item> without an id, with a writable process and stop commands within the size limit:
    if the stop commands of the first \<open>k\<close> sessions are answered and the one of session
    \<open>k\<close> (if there is one) is not, then the operation succeeds exactly when \<open>k\<close> is the
    number of sessions, and fails with code \<^verbatim>\<open>SWARM_STOP_ERROR\<close> otherwise; the first
    \<open>k\<close> sessions are removed and the others stay registered; the commands written to
    the process are the stop commands of sessions \<open>0\<close> to \<open>k\<close>, one each, in registry
    order, and no stop command is created or written for a later session.
\<close>

theorem stop_all_until_first_failure:
  "(isInitialized s \<and> i \<noteq> [] \<and> \<not> has i (activeSwarms s) \<longrightarrow>
      (\<exists>e. stopSwarm rt env (Some i) s = (Inl e, s)))
   \<and> stopSwarm rt env (Some []) s = stopSwarm rt env None s
   \<and> (isInitialized s \<and> distinct (map fst (activeSwarms s)) \<longrightarrow>
        (case stopSwarm rt env None s of
           (Inr u, s') \<Rightarrow> activeSwarms s' = []
         | (Inl e, s') \<Rightarrow>
             errorCode e = Some ''SWARM_STOP_ERROR''
             \<and> (\<exists>n<length (activeSwarms s). activeSwarms s' = drop n (activeSwarms s))))
   \<and> (isInitialized s \<and> juliaProcess s = Some proc \<and> stdin proc = Some inp \<and> writable inp
        \<and> distinct (map fst (activeSwarms s))
        \<and> (\<forall>j<length (activeSwarms s).
              length (stopCommandLine rt (uuidCalls s + j) (map fst (activeSwarms s) ! j)) \<le> Suc (10 * 1024 * 1024))
        \<and> k \<le> length (activeSwarms s)
        \<and> (\<forall>j<k. answered (env (uuidv4 rt (uuidCalls s + j))))
        \<and> (k < length (activeSwarms s) \<longrightarrow> \<not> answered (env (uuidv4 rt (uuidCalls s + k)))) \<longrightarrow>
        (k = length (activeSwarms s) \<longrightarrow> fst (stopSwarm rt env None s) = Inr ())
        \<and> (k < length (activeSwarms s) \<longrightarrow>
              (\<exists>e. fst (stopSwarm rt env None s) = Inl e \<and> errorCode e = Some ''SWARM_STOP_ERROR''))
        \<and> activeSwarms (snd (stopSwarm rt env None s)) = drop k (activeSwarms s)
        \<and> uuidCalls (snd (stopSwarm rt env None s)) = uuidCalls s + min (Suc k) (length (activeSwarms s))
        \<and> juliaProcess (snd (stopSwarm rt env None s)) =
            Some (proc\<lparr> stdin := Some (inp\<lparr> written := written inp @
                    map (\<lambda>j. stopCommandLine rt (uuidCalls s + j) (map fst (activeSwarms s) ! j))
                        [0..<min (Suc k) (length (activeSwarms s))] \<rparr>) \<rparr>))"
proof (intro conjI)
  show "isInitialized s \<and> i \<noteq> [] \<and> \<not> has i (activeSwarms s) \<longrightarrow>
      (\<exists>e. stopSwarm rt env (Some i) s = (Inl e, s))"
    by (simp add: stopSwarm_def)
  show "stopSwarm rt env (Some []) s = stopSwarm rt env None s"
    by (simp add: stopSwarm_def)
  show "isInitialized s \<and> distinct (map fst (activeSwarms s)) \<longrightarrow>
        (case stopSwarm rt env None s of
           (Inr u, s') \<Rightarrow> activeSwarms s' = []
         | (Inl e, s') \<Rightarrow>
             errorCode e = Some ''SWARM_STOP_ERROR''
             \<and> (\<exists>n<length (activeSwarms s). activeSwarms s' = drop n (activeSwarms s)))"
    using stopSwarms_registry [of s "activeSwarms s" rt env]
    by (auto simp add: stopSwarm_def wrapError_def split: prod.splits sum.splits)
  show "isInitialized s \<and> juliaProcess s = Some proc \<and> stdin proc = Some inp \<and> writable inp
        \<and> distinct (map fst (activeSwarms s))
        \<and> (\<forall>j<length (activeSwarms s).
              length (stopCommandLine rt (uuidCalls s + j) (map fst (activeSwarms s) ! j)) \<le> Suc (10 * 1024 * 1024))
        \<and> k \<le> length (activeSwarms s)
        \<and> (\<forall>j<k. answered (env (uuidv4 rt (uuidCalls s + j))))
        \<and> (k < length (activeSwarms s) \<longrightarrow> \<not> answered (env (uuidv4 rt (uuidCalls s + k)))) \<longrightarrow>
        (k = length (activeSwarms s) \<longrightarrow> fst (stopSwarm rt env None s) = Inr ())
        \<and> (k < length (activeSwarms s) \<longrightarrow>
              (\<exists>e. fst (stopSwarm rt env None s) = Inl e \<and> errorCode e = Some ''SWARM_STOP_ERROR''))
        \<and> activeSwarms (snd (stopSwarm rt env None s)) = drop k (activeSwarms s)
        \<and> uuidCalls (snd (stopSwarm rt env None s)) = uuidCalls s + min (Suc k) (length (activeSwarms s))
        \<and> juliaProcess (snd (stopSwarm rt env None s)) =
            Some (proc\<lparr> stdin := Some (inp\<lparr> written := written inp @
                    map (\<lambda>j. stopCommandLine rt (uuidCalls s + j) (map fst (activeSwarms s) ! j))
                        [0..<min (Suc k) (length (activeSwarms s))] \<rparr>) \<rparr>)"
  proof
    assume a: "isInitialized s \<and> juliaProcess s = Some proc \<and> stdin proc = Some inp \<and> writable inp
        \<and> distinct (map fst (activeSwarms s))
        \<and> (\<forall>j<length (activeSwarms s).
              length (stopCommandLine rt (uuidCalls s + j) (map fst (activeSwarms s) ! j)) \<le> Suc (10 * 1024 * 1024))
        \<and> k \<le> length (activeSwarms s)
        \<and> (\<forall>j<k. answered (env (uuidv4 rt (uuidCalls s + j))))
        \<and> (k < length (activeSwarms s) \<longrightarrow> \<not> answered (env (uuidv4 rt (uuidCalls s + k))))"
    then have init: "isInitialized s" by simp
    have tr: "(k = length (activeSwarms s) \<longrightarrow> fst (stopSwarms rt env (map fst (activeSwarms s)) s) = Inr ())
       \<and> (k < length (activeSwarms s) \<longrightarrow> (\<exists>e. fst (stopSwarms rt env (map fst (activeSwarms s)) s) = Inl e))
       \<and> activeSwarms (snd (stopSwarms rt env (map fst (activeSwarms s)) s)) = drop k (activeSwarms s)
       \<and> uuidCalls (snd (stopSwarms rt env (map fst (activeSwarms s)) s)) = uuidCalls s + min (Suc k) (length (activeSwarms s))
       \<and> juliaProcess (snd (stopSwarms rt env (map fst (activeSwarms s)) s)) =
           Some (proc\<lparr> stdin := Some (inp\<lparr> written := written inp @
                   map (\<lambda>j. stopCommandLine rt (uuidCalls s + j) (map fst (activeSwarms s) ! j)) [0..<min (Suc k) (length (activeSwarms s))] \<rparr>) \<rparr>)"
      using a by (intro stopSwarms_trace) simp_all
    have sn: "snd (stopSwarm rt env None s) = snd (stopSwarms rt env (map fst (activeSwarms s)) s)"
      by (rule stopSwarm_all [OF init]) simp
    note fs = stopSwarm_all_result [OF init, of rt env]
    show "(k = length (activeSwarms s) \<longrightarrow> fst (stopSwarm rt env None s) = Inr ())
        \<and> (k < length (activeSwarms s) \<longrightarrow>
              (\<exists>e. fst (stopSwarm rt env None s) = Inl e \<and> errorCode e = Some ''SWARM_STOP_ERROR''))
        \<and> activeSwarms (snd (stopSwarm rt env None s)) = drop k (activeSwarms s)
        \<and> uuidCalls (snd (stopSwarm rt env None s)) = uuidCalls s + min (Suc k) (length (activeSwarms s))
        \<and> juliaProcess (snd (stopSwarm rt env None s)) =
            Some (proc\<lparr> stdin := Some (inp\<lparr> written := written inp @
                    map (\<lambda>j. stopCommandLine rt (uuidCalls s + j) (map fst (activeSwarms s) ! j))
                        [0..<min (Suc k) (length (activeSwarms s))] \<rparr>) \<rparr>)"
      unfolding sn fs using tr by (auto simp add: wrapError_def)
  qed
qed

theorem stop_all_until_first_failure_witness:
  "isInitialized twoSwarms \<and> ''c'' \<noteq> [] \<and> \<not> has ''c'' (activeSwarms twoSwarms)
   \<and> snd (stopSwarm rt0 allTimeOut (Some ''c'') twoSwarms) = twoSwarms
   \<and> stopSwarm rt0 allTimeOut (Some []) twoSwarms = stopSwarm rt0 allTimeOut None twoSwarms
   \<and> distinct (map fst (activeSwarms twoSwarms))
   \<and> juliaProcess twoSwarms = Some spawn \<and> stdin spawn = Some \<lparr> writable = True, written = [] \<rparr>
   \<and> fst (stopSwarm rt0 allAnswered None twoSwarms) = Inr ()
   \<and> activeSwarms (snd (stopSwarm rt0 allAnswered None twoSwarms)) = []
   \<and> answered (firstAnswered (uuidv4 rt0 0)) \<and> \<not> answered (firstAnswered (uuidv4 rt0 1))
   \<and> activeSwarms (snd (stopSwarm rt0 firstAnswered None twoSwarms)) = [(''b'', swarmB)]
   \<and> juliaProcess (snd (stopSwarm rt0 firstAnswered None twoSwarms)) =
        Some \<lparr> stdin = Some \<lparr> writable = True,
                  written = [''u:stop_swarm'' @ [CHR 0x0A], ''uu:stop_swarm'' @ [CHR 0x0A]] \<rparr>,
                killed = False \<rparr>"
proof -
  have init: "isInitialized twoSwarms" and keys: "distinct (map fst (activeSwarms twoSwarms))"
    and proc: "juliaProcess twoSwarms = Some spawn"
    and inp: "stdin spawn = Some \<lparr> writable = True, written = [] \<rparr>"
    and len: "length (activeSwarms twoSwarms) = 2"
    and registry: "activeSwarms twoSwarms = [(''a'', swarmA), (''b'', swarmB)]"
    and calls: "uuidCalls twoSwarms = 0"
    by (simp_all add: twoSwarms_simps spawn_def)
  have unknown: "''c'' \<noteq> [] \<and> \<not> has ''c'' (activeSwarms twoSwarms)"
    by (simp add: twoSwarms_simps has_def)
  have sizes: "\<forall>j<length (activeSwarms twoSwarms).
      length (stopCommandLine rt0 (uuidCalls twoSwarms + j) (map fst (activeSwarms twoSwarms) ! j)) \<le> Suc (10 * 1024 * 1024)"
    by (simp add: twoSwarms_simps stopCommandLine_def rt0_def less_Suc_eq)
  have a2: "\<forall>j<2. answered (allAnswered (uuidv4 rt0 (uuidCalls twoSwarms + j)))"
    by (simp add: answered_def allAnswered_def)
  have f1: "\<forall>j<1. answered (firstAnswered (uuidv4 rt0 (uuidCalls twoSwarms + j)))"
    by (simp add: answered_def firstAnswered_def rt0_def twoSwarms_simps)
  have f2: "\<not> answered (firstAnswered (uuidv4 rt0 (uuidCalls twoSwarms + 1)))"
    by (simp add: answered_def firstAnswered_def rt0_def twoSwarms_simps)
  have g0: "answered (firstAnswered (uuidv4 rt0 0))" and g1: "\<not> answered (firstAnswered (uuidv4 rt0 1))"
    by (simp_all add: answered_def firstAnswered_def rt0_def)
  have r1: "snd (stopSwarm rt0 allTimeOut (Some ''c'') twoSwarms) = twoSwarms"
    using stop_all_until_first_failure [where s = twoSwarms and i = "''c''" and rt = rt0 and env = allTimeOut,
        THEN conjunct1] init unknown by auto
  have r2: "stopSwarm rt0 allTimeOut (Some []) twoSwarms = stopSwarm rt0 allTimeOut None twoSwarms"
    by (rule stop_all_until_first_failure [THEN conjunct2, THEN conjunct1])
  have r3: "fst (stopSwarm rt0 allAnswered None twoSwarms) = Inr ()
      \<and> activeSwarms (snd (stopSwarm rt0 allAnswered None twoSwarms)) = []"
    using stop_all_until_first_failure [where s = twoSwarms and rt = rt0 and env = allAnswered and k = 2
        and proc = spawn and inp = "\<lparr> writable = True, written = [] \<rparr>",
        THEN conjunct2, THEN conjunct2, THEN conjunct2]
      init keys proc inp sizes a2 len by simp
  have r4: "activeSwarms (snd (stopSwarm rt0 firstAnswered None twoSwarms)) = drop 1 (activeSwarms twoSwarms)
      \<and> juliaProcess (snd (stopSwarm rt0 firstAnswered None twoSwarms)) =
          Some (spawn\<lparr> stdin := Some (\<lparr> writable = True, written = [] \<rparr>\<lparr> written := written \<lparr> writable = True, written = [] \<rparr> @
                    map (\<lambda>j. stopCommandLine rt0 (uuidCalls twoSwarms + j) (map fst (activeSwarms twoSwarms) ! j))
                        [0..<min (Suc 1) (length (activeSwarms twoSwarms))] \<rparr>) \<rparr>)"
    using stop_all_until_first_failure [where s = twoSwarms and rt = rt0 and env = firstAnswered and k = 1
        and proc = spawn and inp = "\<lparr> writable = True, written = [] \<rparr>",
        THEN conjunct2, THEN conjunct2, THEN conjunct2]
      init keys proc inp sizes f1 f2 len by simp
  have upt2: "[0..<2] = [0, Suc 0]" by (simp add: upt_rec)
  have lines: "map (\<lambda>j. stopCommandLine rt0 (uuidCalls twoSwarms + j) (map fst (activeSwarms twoSwarms) ! j))
                        [0..<min (Suc 1) (length (activeSwarms twoSwarms))]
      = [''u:stop_swarm'' @ [CHR 0x0A], ''uu:stop_swarm'' @ [CHR 0x0A]]"
    by (simp add: len upt2 calls registry stopCommandLine_def rt0_def)
  have r5: "juliaProcess (snd (stopSwarm rt0 firstAnswered None twoSwarms)) =
        Some \<lparr> stdin = Some \<lparr> writable = True,
                  written = [''u:stop_swarm'' @ [CHR 0x0A], ''uu:stop_swarm'' @ [CHR 0x0A]] \<rparr>,
                killed = False \<rparr>"
    using r4 unfolding lines by (simp add: spawn_def)
  have r6: "activeSwarms (snd (stopSwarm rt0 firstAnswered None twoSwarms)) = [(''b'', swarmB)]"
    using r4 by (simp add: registry)
  show ?thesis
    using init unknown r1 r2 keys proc inp r3 g0 g1 r6 r5 by simp
qed

text \<open>
  C6 as stated fails: with two registered sessions and a first stop that times out, the
  operation fails at once; only the stop command of the first session is written, no
  failure is collected, and both sessions stay registered.
\<close>

theorem stop_all_aborts_on_first_failure:
  "isInitialized twoSwarms
   \<and> map fst (activeSwarms twoSwarms) = [''a'', ''b'']
   \<and> fst (stopSwarm rt0 allTimeOut None twoSwarms) =
       Inl (JuliaBridgeError ''Failed to stop swarm: Command timed out: stop_swarm'' ''SWARM_STOP_ERROR'')
   \<and> map fst (activeSwarms (snd (stopSwarm rt0 allTimeOut None twoSwarms))) = [''a'', ''b'']
   \<and> juliaProcess (snd (stopSwarm rt0 allTimeOut None twoSwarms)) =
       Some \<lparr> stdin = Some \<lparr> writable = True, written = [''u:stop_swarm'' @ [CHR 0x0A]] \<rparr>, killed = False \<rparr>"
  by (simp add: stopSwarm_def twoSwarms_simps stop_first_times_out wrapError_def commandTimedOut_def)

subsection \<open>Flushing the outbound queue\<close>

lemma reject_frame:
  "settled (reject p e s) = settled s @ [(p, Rejected e)]"
  "config (reject p e s) = config s" "ws (reject p e s) = ws s"
  "isConnected (reject p e s) = isConnected s" "retryCount (reject p e s) = retryCount s"
  "messageQueue (reject p e s) = messageQueue s" "uuidCalls (reject p e s) = uuidCalls s"
  "nextPromise (reject p e s) = nextPromise s" "chained (reject p e s) = chained s"
  "pendingRequests (reject p e s) = pendingRequests s"
  by (simp_all add: reject_def)

lemma option_of_cong: "config s' = config s \<Longrightarrow> option_of f s' = option_of f s"
  by (simp add: option_of_def)

lemma expire_fold_settled:
  "settled (fold (\<lambda>item. reject (q_promise item) e) xs s) = settled s @ map (\<lambda>item. (q_promise item, Rejected e)) xs"
  by (induction xs arbitrary: s) (simp_all add: reject_frame)

lemma expire_fold_frame:
  "config (fold (\<lambda>item. reject (q_promise item) e) xs s) = config s"
  "ws (fold (\<lambda>item. reject (q_promise item) e) xs s) = ws s"
  "isConnected (fold (\<lambda>item. reject (q_promise item) e) xs s) = isConnected s"
  "retryCount (fold (\<lambda>item. reject (q_promise item) e) xs s) = retryCount s"
  "messageQueue (fold (\<lambda>item. reject (q_promise item) e) xs s) = messageQueue s"
  "uuidCalls (fold (\<lambda>item. reject (q_promise item) e) xs s) = uuidCalls s"
  "nextPromise (fold (\<lambda>item. reject (q_promise item) e) xs s) = nextPromise s"
  "chained (fold (\<lambda>item. reject (q_promise item) e) xs s) = chained s"
  by (induction xs arbitrary: s) (simp_all add: reject_frame)

lemma resend_connected:
  assumes "isConnected s" and "ws s = Some w" and "readyState w = OPEN"
    and "orDefault (option_of artificialDelay s) 0 = 0"
  shows "resend rt now item s =
     s\<lparr> nextPromise := Suc (nextPromise s), uuidCalls := Suc (uuidCalls s),
        timers := AList.update (nextTimer s)
                    \<lparr> t_delay = orDefault (option_of opt_timeout s) 30000,
                      t_action = RequestTimeout (uuidv4 rt (uuidCalls s)) (nextPromise s) \<rparr> (timers s),
        nextTimer := Suc (nextTimer s),
        pendingRequests := AList.update (uuidv4 rt (uuidCalls s))
                    \<lparr> pr_promise = nextPromise s, pr_timeout = Some (nextTimer s) \<rparr> (pendingRequests s),
        ws := Some (w\<lparr> sent := sent w @ [requestMessage rt (uuidCalls s) item] \<rparr>),
        chained := chained s @ [(nextPromise s, q_promise item)] \<rparr>"
  using assms
  by (simp add: resend_def sendMessage_def newPromise_def nextUuid_def setTimeout_def wsSend_def
      option_of_def requestMessage_def Let_def)

lemma resend_fold:
  assumes "isConnected s" and "ws s = Some w" and "readyState w = OPEN"
    and "orDefault (option_of artificialDelay s) 0 = 0"
  shows "ws (fold (resend rt now) xs s) =
           Some (w\<lparr> sent := sent w @ map (\<lambda>j. requestMessage rt (uuidCalls s + j) (xs ! j)) [0..<length xs] \<rparr>)
       \<and> chained (fold (resend rt now) xs s) =
           chained s @ map (\<lambda>j. (nextPromise s + j, q_promise (xs ! j))) [0..<length xs]
       \<and> settled (fold (resend rt now) xs s) = settled s
       \<and> messageQueue (fold (resend rt now) xs s) = messageQueue s"
  using assms
proof (induction xs arbitrary: s w)
  case Nil
  then show ?case by simp
next
  case (Cons x xs)
  let ?w1 = "w\<lparr> sent := sent w @ [requestMessage rt (uuidCalls s) x] \<rparr>"
  let ?s1 = "resend rt now x s"
  note r = resend_connected [OF Cons.prems, of rt now x]
  have c: "isConnected ?s1" "ws ?s1 = Some ?w1" "readyState ?w1 = OPEN"
    "orDefault (option_of artificialDelay ?s1) 0 = 0"
    using Cons.prems by (simp_all add: r option_of_def)
  have u: "uuidCalls ?s1 = Suc (uuidCalls s)" "nextPromise ?s1 = Suc (nextPromise s)"
    "chained ?s1 = chained s @ [(nextPromise s, q_promise x)]" "settled ?s1 = settled s"
    "messageQueue ?s1 = messageQueue s"
    by (simp_all add: r)
  have shift1: "map (\<lambda>j. requestMessage rt (uuidCalls s + j) ((x # xs) ! j)) [0..<length (x # xs)]
      = requestMessage rt (uuidCalls s) x # map (\<lambda>j. requestMessage rt (uuidCalls ?s1 + j) (xs ! j)) [0..<length xs]"
    by (simp add: u upt_conv_Cons map_Suc_upt [symmetric] del: upt_Suc)
  have shift2: "map (\<lambda>j. (nextPromise s + j, q_promise ((x # xs) ! j))) [0..<length (x # xs)]
      = (nextPromise s, q_promise x) # map (\<lambda>j. (nextPromise ?s1 + j, q_promise (xs ! j))) [0..<length xs]"
    by (simp add: u upt_conv_Cons map_Suc_upt [symmetric] del: upt_Suc)
  from Cons.IH [OF c]
  show ?case
    by (simp only: fold_simps shift1 shift2 u) simp
qed

text \<open>
  C8. \<^verbatim>\<open>processQueuedMessages\<close> runs on a connected bridge with an open socket (no
  artificial delay configured), as the \<^verbatim>\<open>open\<close> handler calls it. Every queued entry
  with \<^verbatim>\<open>now - timestamp > maxQueueAge\<close> is rejected with \<open>Message expired\<close>, in
  queue order, and nothing else is settled; what is sent on the socket afterwards is
  what was sent before followed by the messages of the surviving entries, in their queue
  order and each under a new identifier; the promise of each resent message is chained
  to the callbacks of its entry; the queue is empty.
\<close>

theorem flush_expires_then_resends_in_order:
  assumes "isConnected s" and "ws s = Some w" and "readyState w = OPEN"
    and "orDefault (option_of artificialDelay s) 0 = 0"
  shows "settled (processQueuedMessages rt now s) =
           settled s @ map (\<lambda>item. (q_promise item, Rejected (Error ''Message expired'')))
                          (filter (expired now (orDefault (option_of opt_timeout s) 30000)) (messageQueue s))
       \<and> ws (processQueuedMessages rt now s) =
           Some (w\<lparr> sent := sent w @
              map (\<lambda>j. requestMessage rt (uuidCalls s + j)
                         (filter (\<lambda>item. \<not> expired now (orDefault (option_of opt_timeout s) 30000) item) (messageQueue s) ! j))
                  [0..<length (filter (\<lambda>item. \<not> expired now (orDefault (option_of opt_timeout s) 30000) item) (messageQueue s))] \<rparr>)
       \<and> chained (processQueuedMessages rt now s) =
           chained s @
              map (\<lambda>j. (nextPromise s + j,
                         q_promise (filter (\<lambda>item. \<not> expired now (orDefault (option_of opt_timeout s) 30000) item) (messageQueue s) ! j)))
                  [0..<length (filter (\<lambda>item. \<not> expired now (orDefault (option_of opt_timeout s) 30000) item) (messageQueue s))]
       \<and> messageQueue (processQueuedMessages rt now s) = []"
proof -
  let ?age = "orDefault (option_of opt_timeout s) 30000"
  let ?old = "filter (expired now ?age) (messageQueue s)"
  let ?live = "filter (\<lambda>item. \<not> expired now ?age item) (messageQueue s)"
  let ?s1 = "fold (\<lambda>item. reject (q_promise item) (Error ''Message expired'')) ?old s"
  let ?s2 = "?s1\<lparr> messageQueue := [] \<rparr>"
  have unfold: "processQueuedMessages rt now s = fold (resend rt now) ?live ?s2"
    by (simp add: processQueuedMessages_def Let_def expire_fold_frame)
  have c: "isConnected ?s2" "ws ?s2 = Some w" "readyState w = OPEN"
    "orDefault (option_of artificialDelay ?s2) 0 = 0"
    using assms by (simp_all add: expire_fold_frame option_of_def)
  have f: "uuidCalls ?s2 = uuidCalls s" "nextPromise ?s2 = nextPromise s" "chained ?s2 = chained s"
    "settled ?s2 = settled s @ map (\<lambda>item. (q_promise item, Rejected (Error ''Message expired''))) ?old"
    "messageQueue ?s2 = []"
    by (simp_all add: expire_fold_frame expire_fold_settled)
  show ?thesis
    unfolding unfold using resend_fold [OF c, of rt now ?live]
    by (simp only: f)
qed

theorem flush_expires_then_resends_in_order_witness:
  "isConnected queued \<and> ws queued = Some \<lparr> readyState = OPEN, sent = [heartbeatMessage 0] \<rparr>
   \<and> orDefault (option_of artificialDelay queued) 0 = 0
   \<and> map q_timestamp (messageQueue queued) = [0, 50000, 60000]
   \<and> orDefault (option_of opt_timeout queued) 30000 = 30000
   \<and> settled (processQueuedMessages rt0 70000 queued) = [(7, Rejected (Error ''Message expired''))]
   \<and> ws (processQueuedMessages rt0 70000 queued) =
        Some \<lparr> readyState = OPEN,
               sent = [heartbeatMessage 0,
                       JObj [(''id'', JStr ''u''), (''n'', JNum 2)],
                       JObj [(''id'', JStr ''uu''), (''n'', JNum 3)]] \<rparr>
   \<and> messageQueue (processQueuedMessages rt0 70000 queued) = []"
proof -
  have upt2: "[0..<2] = [0, Suc 0]" by (simp add: upt_rec)
  show ?thesis
    using flush_expires_then_resends_in_order [of queued "\<lparr> readyState = OPEN, sent = [heartbeatMessage 0] \<rparr>" rt0 70000]
    by (simp add: queued_def ready_eq option_of_def orDefault_def expired_def requestMessage_def spread_def
        rt0_def upt2)
qed

subsection \<open>Reconnection delays\<close>

lemma sendMessage_frame:
  "retryCount (snd (sendMessage rt now message s)) = retryCount s"
  "isInitialized (snd (sendMessage rt now message s)) = isInitialized s"
  by (simp_all add: sendMessage_def newPromise_def nextUuid_def setTimeout_def reject_def Let_def
      split: option.splits)

lemma resend_frame:
  "retryCount (resend rt now item s) = retryCount s"
  "isInitialized (resend rt now item s) = isInitialized s"
proof -
  obtain p s1 where sm: "sendMessage rt now (q_message item) s = (p, s1)"
    by (cases "sendMessage rt now (q_message item) s")
  have "retryCount s1 = retryCount s" "isInitialized s1 = isInitialized s"
    using sendMessage_frame [of rt now "q_message item" s] by (simp_all add: sm)
  then show "retryCount (resend rt now item s) = retryCount s"
    "isInitialized (resend rt now item s) = isInitialized s"
    by (simp_all add: resend_def sm)
qed

lemma resend_fold_frame:
  "retryCount (fold (resend rt now) xs s) = retryCount s"
  "isInitialized (fold (resend rt now) xs s) = isInitialized s"
  by (induction xs arbitrary: s) (simp_all add: resend_frame)

lemma expire_fold_isInitialized:
  "isInitialized (fold (\<lambda>item. reject (q_promise item) e) xs s) = isInitialized s"
  by (induction xs arbitrary: s) (simp_all add: reject_def)

lemma processQueuedMessages_frame:
  "retryCount (processQueuedMessages rt now s) = retryCount s"
  "isInitialized (processQueuedMessages rt now s) = isInitialized s"
  by (simp_all add: processQueuedMessages_def Let_def resend_fold_frame expire_fold_frame
      expire_fold_isInitialized)

lemma startHeartbeat_frame:
  "retryCount (startHeartbeat now s) = retryCount s"
  "isInitialized (startHeartbeat now s) = isInitialized s"
  by (simp_all add: startHeartbeat_def sendHeartbeat_def handleDisconnect_def scheduleReconnect_def
      setTimeout_def clearTimeout_def Let_def split: option.splits)

lemma waitForConnection_isInitialized:
  "isInitialized (snd (waitForConnection rt now conn s)) = isInitialized s"
  by (simp add: waitForConnection_def onOpen_def startHeartbeat_frame processQueuedMessages_frame
      socketOpened_def onStdout_def connectWebSocket_def split: connection.splits option.splits)

text \<open>
  C5, as the code has it. The class has two reconnection paths. For the socket,
  \<^verbatim>\<open>scheduleReconnect\<close> arms its timer with the delay
  \<open>baseDelay * multiplier ^ retryCount\<close>, where the base delay and the multiplier
  are the configured \<^verbatim>\<open>reconnectInterval\<close> and \<^verbatim>\<open>backoffMultiplier\<close> (5000 and 1.5
  when missing or 0); the timer's callback counts the attempt, and the \<^verbatim>\<open>open\<close>
  handler sets \<^verbatim>\<open>retryCount\<close> to 0. For the process, \<^verbatim>\<open>handleReconnect\<close> arms its
  timer with \<open>reconnectDelay * 2 ^ reconnectAttempts\<close> (the count before the
  attempt), whatever is configured, and \<^verbatim>\<open>reconnectAttempts\<close> is 0 after an
  \<^verbatim>\<open>initialize()\<close> that initialised the bridge.
\<close>

theorem reconnect_delays:
  "(\<not> isReconnecting s \<and> reconnectTimer s = None \<longrightarrow>
      map_of (timers (scheduleReconnect s)) (nextTimer s) =
        Some \<lparr> t_delay = orDefault (option_of reconnectInterval s) 5000
                            * orDefault (option_of backoffMultiplier s) (3 / 2) ^ retryCount s,
               t_action = ReconnectTimer \<rparr>
      \<and> reconnectTimer (scheduleReconnect s) = Some (nextTimer s))
   \<and> retryCount (reconnectTimerCallback s1) = Suc (retryCount s1)
   \<and> retryCount (onOpen rt now s1) = 0
   \<and> (reconnectAttempts s2 < maxReconnectAttempts s2 \<longrightarrow>
        map_of (timers (handleReconnect s2)) (nextTimer s2) =
          Some \<lparr> t_delay = reconnectDelay s2 * 2 ^ reconnectAttempts s2, t_action = ReInitialize \<rparr>
        \<and> reconnectAttempts (handleReconnect s2) = Suc (reconnectAttempts s2))
   \<and> (\<not> isInitialized s3 \<and> isInitialized (snd (initialize rt now conn s3)) \<longrightarrow>
        reconnectAttempts (snd (initialize rt now conn s3)) = 0)"
proof (intro conjI impI)
  assume a: "\<not> isReconnecting s \<and> reconnectTimer s = None"
  then show "map_of (timers (scheduleReconnect s)) (nextTimer s) =
        Some \<lparr> t_delay = orDefault (option_of reconnectInterval s) 5000
                            * orDefault (option_of backoffMultiplier s) (3 / 2) ^ retryCount s,
               t_action = ReconnectTimer \<rparr>"
    by (simp add: scheduleReconnect_def setTimeout_def calculateBackoffDelay_def option_of_def Let_def update_conv')
  from a show "reconnectTimer (scheduleReconnect s) = Some (nextTimer s)"
    by (simp add: scheduleReconnect_def setTimeout_def Let_def)
next
  show "retryCount (reconnectTimerCallback s1) = Suc (retryCount s1)"
    by (simp add: reconnectTimerCallback_def connectWebSocket_def Let_def split: option.splits)
next
  show "retryCount (onOpen rt now s1) = 0"
    by (simp add: onOpen_def startHeartbeat_frame processQueuedMessages_frame)
next
  assume a: "reconnectAttempts s2 < maxReconnectAttempts s2"
  then show "map_of (timers (handleReconnect s2)) (nextTimer s2) =
          Some \<lparr> t_delay = reconnectDelay s2 * 2 ^ reconnectAttempts s2, t_action = ReInitialize \<rparr>"
    by (simp add: handleReconnect_def setTimeout_def Let_def update_conv')
  from a show "reconnectAttempts (handleReconnect s2) = Suc (reconnectAttempts s2)"
    by (simp add: handleReconnect_def setTimeout_def Let_def)
next
  assume a: "\<not> isInitialized s3 \<and> isInitialized (snd (initialize rt now conn s3))"
  obtain r s' where w: "waitForConnection rt now conn (s3\<lparr> juliaProcess := Some spawn \<rparr>) = (r, s')"
    by (cases "waitForConnection rt now conn (s3\<lparr> juliaProcess := Some spawn \<rparr>)")
  have i: "isInitialized s' = isInitialized s3"
  proof -
    have "isInitialized (snd (waitForConnection rt now conn (s3\<lparr> juliaProcess := Some spawn \<rparr>))) = isInitialized s3"
      by (simp add: waitForConnection_isInitialized)
    then show ?thesis by (simp add: w)
  qed
  show "reconnectAttempts (snd (initialize rt now conn s3)) = 0"
    using a i
    by (cases r) (auto simp add: initialize_def w setTimeout_def Let_def split: if_splits)
qed


theorem reconnect_delays_witness:
  "\<not> isReconnecting ready \<and> reconnectTimer ready = None
   \<and> map_of (timers (scheduleReconnect (ready\<lparr> retryCount := 2 \<rparr>))) 1 =
        Some \<lparr> t_delay = 11250, t_action = ReconnectTimer \<rparr>
   \<and> retryCount (onOpen rt0 0 (ready\<lparr> retryCount := 2 \<rparr>)) = 0
   \<and> reconnectAttempts ready < maxReconnectAttempts ready
   \<and> map_of (timers (handleReconnect ready)) 1 = Some \<lparr> t_delay = 1000, t_action = ReInitialize \<rparr>
   \<and> \<not> isInitialized created \<and> isInitialized (snd (initialize rt0 0 Opens created))
   \<and> reconnectAttempts (snd (initialize rt0 0 Opens created)) = 0"
proof -
  have r: "snd (initialize rt0 0 Opens created) = ready" by (simp add: ready_def)
  show ?thesis
    using reconnect_delays [of "ready\<lparr> retryCount := 2 \<rparr>" "ready\<lparr> retryCount := 2 \<rparr>" rt0 0 ready created Opens]
    by (simp add: r) (simp add: ready_eq created_def newJuliaBridge_def option_of_def orDefault_def power2_eq_square)
qed


text \<open>
  C5 as stated fails for the delay of \<^verbatim>\<open>handleReconnect\<close>: on the initialised bridge
  with the default configuration (base delay 5000, multiplier 1.5) and no attempt made
  yet, it waits 1000 ms.
\<close>

theorem reconnect_delay_of_process_restart:
  "reconnectAttempts ready = 0 \<and> retryCount ready = 0
   \<and> option_of reconnectInterval ready = Some 5000
   \<and> option_of backoffMultiplier ready = Some (3 / 2)
   \<and> calculateBackoffDelay ready = 5000
   \<and> map_of (timers (handleReconnect ready)) 1 = Some \<lparr> t_delay = 1000, t_action = ReInitialize \<rparr>
   \<and> (1000 :: real) \<noteq> 5000 * (3 / 2) ^ 0
   \<and> (1000 :: real) \<noteq> 5000 * (3 / 2) ^ 1"
  by (simp add: ready_eq calculateBackoffDelay_def option_of_def orDefault_def handleReconnect_def
      setTimeout_def Let_def)

subsection \<open>The heartbeat\<close>





end
